theory Spec2Isabelle
  imports Complex_Main "HOL-Library.Multiset"
begin

text \<open>
  A model of parts of the Azure Data Studio extension suite: the remote user-data sync
  service, the new-project dialog, the Jupyter server installation, the Azure
  subscription picker, the connection browser, the comparison validations and the SQL
  project file. The definitions come first, file by file; the properties follow.
\<close>

section \<open>Shared vocabulary: thrown values and settled promises\<close>

text \<open>
  A value thrown by a JavaScript operation. The sources only ever read the message of
  what they catch, so a thrown value is modelled by its message.
\<close>

datatype thrown = Thrown (message: string)

text \<open>
  The state in which the promise returned by an \<open>async\<close> function settles: it resolves
  with a value, or it rejects with the thrown value.
\<close>

datatype 'a settled = Resolved 'a | Rejected thrown

section \<open>UserDataAutoSyncService (src/unnamed/part_000)\<close>

text \<open>
  The arguments that the service hands to \<open>IChannel.call\<close>: a string array or a boolean.
  \<open>call\<close> takes the command name and an optional argument array (\<open>turnOn\<close> passes
  none).
\<close>

datatype ipc_arg = ArgStrings "string list" | ArgBool bool

text \<open>
  The shared process is outside the program. It is a state \<open>'w\<close> on which a call to a
  named channel with a command and arguments acts, giving the promise the call returns
  (\<open>'r\<close>) and the next state of the shared process.
\<close>

type_synonym ('w, 'r) channel_call =
  "string \<Rightarrow> string \<Rightarrow> ipc_arg list option \<Rightarrow> 'w \<Rightarrow> 'r \<times> 'w"

text \<open>The only field the class itself declares is the channel, fixed by the constructor.\<close>

record userDataAutoSyncService =
  channel :: string

definition newUserDataAutoSyncService :: userDataAutoSyncService where
  "newUserDataAutoSyncService = \<lparr>channel = ''userDataAutoSync''\<rparr>"

text \<open>
  Each method returns what \<open>this.channel.call\<close> returns. The service is threaded through
  so that a change of its own state would show.
\<close>

definition triggerSync ::
  "('w, 'r) channel_call \<Rightarrow> string list \<Rightarrow> bool \<Rightarrow> bool \<Rightarrow>
   userDataAutoSyncService \<times> 'w \<Rightarrow> 'r \<times> userDataAutoSyncService \<times> 'w" where
  "triggerSync call sources hasToLimitSync disableCache sw =
     (case sw of (svc, w) \<Rightarrow>
        (case call (channel svc) ''triggerSync''
                (Some [ArgStrings sources, ArgBool hasToLimitSync, ArgBool disableCache]) w of
           (r, w') \<Rightarrow> (r, svc, w')))"

definition turnOn ::
  "('w, 'r) channel_call \<Rightarrow> userDataAutoSyncService \<times> 'w \<Rightarrow> 'r \<times> userDataAutoSyncService \<times> 'w" where
  "turnOn call sw =
     (case sw of (svc, w) \<Rightarrow>
        (case call (channel svc) ''turnOn'' None w of (r, w') \<Rightarrow> (r, svc, w')))"

definition turnOff ::
  "('w, 'r) channel_call \<Rightarrow> bool \<Rightarrow>
   userDataAutoSyncService \<times> 'w \<Rightarrow> 'r \<times> userDataAutoSyncService \<times> 'w" where
  "turnOff call everywhere sw =
     (case sw of (svc, w) \<Rightarrow>
        (case call (channel svc) ''turnOff'' (Some [ArgBool everywhere]) w of
           (r, w') \<Rightarrow> (r, svc, w')))"

section \<open>NewProjectDialog.validate (data-workspace/src/dialogs/newProjectDialog.ts)\<close>

record newProjectDialogModel =
  projectTypeId :: string
  projectFileExtension :: string
  name :: string
  location :: string

text \<open>
  What \<open>showErrorMessage\<close> is handed: a localized text built by one of the two
  \<open>constants\<close> functions, the message of a caught error, or the caught value itself
  when it has no (truthy) message.
\<close>

datatype shown =
    ProjectParentDirectoryNotExistError string
  | ProjectDirectoryAlreadyExistError string string
  | ErrorText string
  | ErrorValue thrown

text \<open>
  \<open>directoryExist\<close> (common/utils) and \<open>path.join\<close> are not part of the file; they are
  parameters. \<open>directoryExist\<close> may throw. The list of shown messages is the state of
  the dialog that \<open>validate\<close> changes.
\<close>

definition validate_try ::
  "(string \<Rightarrow> thrown + bool) \<Rightarrow> (string \<Rightarrow> string \<Rightarrow> string) \<Rightarrow>
   newProjectDialogModel \<Rightarrow> shown list \<Rightarrow> (thrown + bool) \<times> shown list" where
  "validate_try directoryExist path_join m msgs =
     (case directoryExist (location m) of
        Inl err \<Rightarrow> (Inl err, msgs)
      | Inr parentDirectoryExists \<Rightarrow>
          if \<not> parentDirectoryExists
          then (Inr False, msgs @ [ProjectParentDirectoryNotExistError (location m)])
          else (case directoryExist (path_join (location m) (name m)) of
                  Inl err \<Rightarrow> (Inl err, msgs)
                | Inr projectDirectoryExists \<Rightarrow>
                    if projectDirectoryExists
                    then (Inr False,
                          msgs @ [ProjectDirectoryAlreadyExistError (name m) (location m)])
                    else (Inr True, msgs)))"

definition validate ::
  "(string \<Rightarrow> thrown + bool) \<Rightarrow> (string \<Rightarrow> string \<Rightarrow> string) \<Rightarrow>
   newProjectDialogModel \<Rightarrow> shown list \<Rightarrow> bool settled \<times> shown list" where
  "validate directoryExist path_join m msgs =
     (case validate_try directoryExist path_join m msgs of
        (Inr b, msgs') \<Rightarrow> (Resolved b, msgs')
      | (Inl err, msgs') \<Rightarrow>
          (Resolved False,
           msgs' @ [if message err \<noteq> [] then ErrorText (message err) else ErrorValue err]))"

section \<open>Installed packages (notebook/src/jupyter/jupyterServerInstallation.ts)\<close>

text \<open>
  The value \<open>JSON.parse\<close> returns. Only the shape of the value and its truthiness are
  read by the code, so a JSON number is a rational.
\<close>

datatype json =
    JNull
  | JBool bool
  | JNum rat
  | JStr string
  | JArr "json list"
  | JObj "(string \<times> json) list"

text \<open>JavaScript truthiness of a parsed JSON value.\<close>

fun truthy :: "json \<Rightarrow> bool" where
  "truthy JNull = False"
| "truthy (JBool b) = b"
| "truthy (JNum n) = (n \<noteq> 0)"
| "truthy (JStr s) = (s \<noteq> [])"
| "truthy (JArr xs) = True"
| "truthy (JObj kvs) = True"

text \<open>
  \<open>pkg.channel\<close>: the member of an object (the last one of that name, as
  \<open>JSON.parse\<close> keeps it), \<open>undefined\<close> on every other value. It is read only behind
  \<open>pkg &&\<close>, so never on \<open>null\<close>.
\<close>

fun json_member :: "json \<Rightarrow> string \<Rightarrow> json option" where
  "json_member (JObj kvs) k = map_of (rev kvs) k"
| "json_member v k = None"

text \<open>The filter of \<open>getInstalledCondaPackages\<close>:
  \<open>pkg && pkg.channel && pkg.channel !== 'pypi'\<close>.\<close>

definition condaChannelPackage :: "json \<Rightarrow> bool" where
  "condaChannelPackage pkg =
     (truthy pkg \<and>
      (case json_member pkg ''channel'' of
         None \<Rightarrow> False
       | Some c \<Rightarrow> truthy c \<and> c \<noteq> JStr ''pypi''))"

text \<open>
  What the two functions reach outside themselves: \<open>fs.existsSync\<close>, the static
  \<open>isPythonInstalled\<close> and the private \<open>isCondaInstalled\<close> (which read the settings and
  the disk), \<open>executeBufferedCommand\<close> (the spawned command, which may fail) and
  \<open>JSON.parse\<close> (which may throw). The fields of the installation that are read are
  \<open>pythonExecutable\<close> and the result of \<open>getCondaExePath\<close>.
\<close>

record pkg_host =
  existsSync :: "string \<Rightarrow> bool"
  isPythonInstalled :: "thrown + bool"
  isCondaInstalled :: "thrown + bool"
  executeBufferedCommand :: "string \<Rightarrow> thrown + string"
  JSON_parse :: "string \<Rightarrow> thrown + json"
  pythonExecutable :: string
  condaExePath :: string

definition quoted :: "string \<Rightarrow> string" where
  "quoted s = [CHR 0x22] @ s @ [CHR 0x22]"

definition msgPackageRetrievalFailed :: "string \<Rightarrow> string" where
  "msgPackageRetrievalFailed errorMessage =
     ''Encountered an error when trying to retrieve list of installed packages: '' @ errorMessage"

text \<open>
  The first check of \<open>getInstalledPipPackages\<close>: is there a Python to ask? The optional
  argument is \<open>undefined\<close> (\<open>None\<close>) or a string. \<open>if (pythonExePath)\<close> takes the empty
  string for absent; with a path the file must exist, without one \<open>isPythonInstalled\<close>
  decides.
\<close>

definition pythonFound :: "pkg_host \<Rightarrow> string option \<Rightarrow> thrown + bool" where
  "pythonFound h pythonExePath =
     (case pythonExePath of
        Some p \<Rightarrow> if p \<noteq> [] then Inr (existsSync h p) else isPythonInstalled h
      | None \<Rightarrow> isPythonInstalled h)"

text \<open>The command line; \<open>??\<close> falls back to \<open>pythonExecutable\<close> only for \<open>undefined\<close>.\<close>

definition pipListCommand :: "pkg_host \<Rightarrow> string option \<Rightarrow> string" where
  "pipListCommand h pythonExePath =
     quoted (case pythonExePath of Some p \<Rightarrow> p | None \<Rightarrow> pythonExecutable h)
       @ '' -m pip list --format=json''"

definition condaListCommand :: "pkg_host \<Rightarrow> string" where
  "condaListCommand h = quoted (condaExePath h) @ '' list --json''"

text \<open>The \<open>try\<close> block of \<open>getInstalledPipPackages\<close>.\<close>

definition getInstalledPipPackages_try :: "pkg_host \<Rightarrow> string option \<Rightarrow> thrown + json" where
  "getInstalledPipPackages_try h pythonExePath =
     (case pythonFound h pythonExePath of
        Inl err \<Rightarrow> Inl err
      | Inr present \<Rightarrow>
          if \<not> present then Inr (JArr [])
          else
            (case executeBufferedCommand h (pipListCommand h pythonExePath) of
               Inl err \<Rightarrow> Inl err
             | Inr packagesInfo \<Rightarrow>
                 if packagesInfo = [] then Inr (JArr [])
                 else
                   (case JSON_parse h packagesInfo of
                      Inl err \<Rightarrow> Inl err
                    | Inr parsedResult \<Rightarrow>
                        if truthy parsedResult then Inr parsedResult else Inr (JArr []))))"

text \<open>The whole function: the \<open>catch\<close> writes one line to the output channel and
  returns the empty list.\<close>

definition getInstalledPipPackages ::
  "pkg_host \<Rightarrow> string option \<Rightarrow> string list \<Rightarrow> json settled \<times> string list" where
  "getInstalledPipPackages h pythonExePath outputChannel =
     (case getInstalledPipPackages_try h pythonExePath of
        Inr packages \<Rightarrow> (Resolved packages, outputChannel)
      | Inl err \<Rightarrow>
          (Resolved (JArr []), outputChannel @ [msgPackageRetrievalFailed (message err)]))"

text \<open>
  The \<open>try\<close> block of \<open>getInstalledCondaPackages\<close>. \<open>parsedResult.filter\<close> exists only
  on an array: on any other truthy value the call throws a \<open>TypeError\<close>.
\<close>

definition getInstalledCondaPackages_try :: "pkg_host \<Rightarrow> thrown + json" where
  "getInstalledCondaPackages_try h =
     (case isCondaInstalled h of
        Inl err \<Rightarrow> Inl err
      | Inr present \<Rightarrow>
          if \<not> present then Inr (JArr [])
          else
            (case executeBufferedCommand h (condaListCommand h) of
               Inl err \<Rightarrow> Inl err
             | Inr packagesInfo \<Rightarrow>
                 if packagesInfo = [] then Inr (JArr [])
                 else
                   (case JSON_parse h packagesInfo of
                      Inl err \<Rightarrow> Inl err
                    | Inr parsedResult \<Rightarrow>
                        if truthy parsedResult
                        then (case parsedResult of
                                JArr pkgs \<Rightarrow> Inr (JArr (filter condaChannelPackage pkgs))
                              | _ \<Rightarrow> Inl (Thrown ''parsedResult.filter is not a function''))
                        else Inr (JArr []))))"

definition getInstalledCondaPackages ::
  "pkg_host \<Rightarrow> string list \<Rightarrow> json settled \<times> string list" where
  "getInstalledCondaPackages h outputChannel =
     (case getInstalledCondaPackages_try h of
        Inr packages \<Rightarrow> (Resolved packages, outputChannel)
      | Inl err \<Rightarrow>
          (Resolved (JArr []), outputChannel @ [msgPackageRetrievalFailed (message err)]))"

section \<open>azure.resource.selectsubscriptions (azurecore/src/azureResource/commands.ts)\<close>

record subscription =
  sub_id :: string
  sub_name :: string

record quickPickItem =
  label :: string
  picked :: bool
  item_subscription :: subscription

text \<open>
  \<open>selectedSubscriptionIds\<close>. \<open>subscriptions\<close> are the subscriptions fetched for the
  tenants of the account (a failure of the fetch ends the command before this point).
  The filter service answers \<open>undefined\<close> (\<open>None\<close>) or a list; with nothing selected,
  the ids of all fetched subscriptions are taken.
\<close>

definition selectedSubscriptionIds ::
  "subscription list option \<Rightarrow> subscription list \<Rightarrow> string list" where
  "selectedSubscriptionIds selected subscriptions =
     (let selectedSubscriptions = (case selected of None \<Rightarrow> [] | Some sel \<Rightarrow> sel)
      in if length selectedSubscriptions > 0
         then map sub_id selectedSubscriptions
         else map sub_id subscriptions)"

text \<open>
  \<open>Array.prototype.sort\<close> with the comparator \<open>a.label.localeCompare(b.label)\<close>. The
  comparator depends on the locale and is a parameter; the sort is stable, so it is an
  insertion that puts an item behind every item that does not compare greater.
\<close>

fun insertItem ::
  "(string \<Rightarrow> string \<Rightarrow> int) \<Rightarrow> quickPickItem \<Rightarrow> quickPickItem list \<Rightarrow> quickPickItem list" where
  "insertItem localeCompare x [] = [x]"
| "insertItem localeCompare x (y # ys) =
     (if localeCompare (label y) (label x) \<le> 0
      then y # insertItem localeCompare x ys
      else x # y # ys)"

definition sortItems ::
  "(string \<Rightarrow> string \<Rightarrow> int) \<Rightarrow> quickPickItem list \<Rightarrow> quickPickItem list" where
  "sortItems localeCompare items = foldl (\<lambda>acc x. insertItem localeCompare x acc) [] items"

definition subscriptionQuickPickItems ::
  "(string \<Rightarrow> string \<Rightarrow> int) \<Rightarrow> subscription list option \<Rightarrow> subscription list \<Rightarrow>
   quickPickItem list" where
  "subscriptionQuickPickItems localeCompare selected subscriptions =
     sortItems localeCompare
       (map (\<lambda>subscription.
               \<lparr>label = sub_name subscription,
                picked = (sub_id subscription
                            \<in> set (selectedSubscriptionIds selected subscriptions)),
                item_subscription = subscription\<rparr>)
            subscriptions)"

section \<open>The install process (notebook/src/jupyter/jupyterServerInstallation.ts)\<close>

record pythonInstallSettings =
  installPath :: string
  existingPython :: bool
  packages :: "(string \<times> string) list"

text \<open>The state of the promise of a \<open>Deferred\<close>.\<close>

datatype promise_state = Pending | Fulfilled | RejectedWith string

text \<open>
  The fields of \<open>JupyterServerInstallation\<close> that \<open>startInstallProcess\<close> and
  \<open>promptForPythonInstall\<close> read or write. \<open>_installCompletion\<close> is \<open>undefined\<close> until the
  first installation; afterwards it refers to a \<open>Deferred\<close>, here by its index in the
  list of all the \<open>Deferred\<close>s created so far. \<open>python3Packages\<close> is what
  \<open>getRequiredPackagesForKernel(python3DisplayName)\<close> returns. The other fields record
  what happens outside the object: the calls of \<open>startInstallProcess\<close> that wait in
  \<open>await this.isPythonRunning(...)\<close>, each with its settings (\<open>pythonChecks\<close>); the number of
  calls that wait in \<open>await this.configurePackagePaths()\<close> (\<open>suspended\<close>); the number of
  background operations whose \<open>installDependencies\<close> has not settled yet, which are the
  installations in progress (\<open>installing\<close>); and the number of background operations ever
  started (\<open>started\<close>).
\<close>

record installation =
  installInProgress :: bool
  installCompletion :: "nat option"
  pythonInstallationPath :: string
  usingExistingPython :: bool
  runningOnSAW :: bool
  python3Packages :: "(string \<times> string) list"
  deferreds :: "promise_state list"
  pythonChecks :: "pythonInstallSettings list"
  suspended :: nat
  installing :: nat
  started :: nat

text \<open>The constructor: nothing is in progress.\<close>

definition newInstallation :: "bool \<Rightarrow> string \<Rightarrow> bool \<Rightarrow> (string \<times> string) list \<Rightarrow> installation" where
  "newInstallation saw path existing pkgs =
     \<lparr>installInProgress = False, installCompletion = None,
      pythonInstallationPath = path, usingExistingPython = existing,
      runningOnSAW = saw, python3Packages = pkgs,
      deferreds = [], pythonChecks = [], suspended = 0, installing = 0, started = 0\<rparr>"

text \<open>What a call hands back to its caller.\<close>

datatype returned =
    ReturnsCompletion nat
  | ReturnsRejected string
  | ReturnsResolved
  | ReturnsSetupComplete

definition msgPythonRunningError :: string where
  "msgPythonRunningError =
     ''Cannot overwrite an existing Python installation while python is running. Please close any active notebooks before proceeding.''"

definition msgDependenciesInstallationFailed :: "string \<Rightarrow> string" where
  "msgDependenciesInstallationFailed errorMessage =
     ''Installing Notebook dependencies failed with error: '' @ errorMessage"

definition installSettingsOrDefault ::
  "installation \<Rightarrow> pythonInstallSettings option \<Rightarrow> pythonInstallSettings" where
  "installSettingsOrDefault s installSettings =
     (case installSettings of
        Some given \<Rightarrow> given
      | None \<Rightarrow> \<lparr>installPath = pythonInstallationPath s,
                 existingPython = usingExistingPython s,
                 packages = python3Packages s\<rparr>)"

text \<open>
  \<open>startInstallProcess\<close> from the test of the answer of \<open>isPythonRunning\<close> to its first
  \<open>await\<close> after the checks; \<open>installSettings\<close> are the settings after the default was
  filled in. \<open>isPythonRunning\<close> is the answer of the awaited check, which is asked only
  when the install does not target an existing Python. The state is the one in which the
  call looks at \<open>_installInProgress\<close>: for an install that does not target an existing
  Python this is the state after the \<open>await\<close>, not the state in which the call was made.
  The result is what the call returns, or \<open>None\<close> when the call goes on and waits for
  \<open>configurePackagePaths\<close>. A read of \<open>_installCompletion.promise\<close> while the field is
  \<open>undefined\<close> throws.
\<close>

definition startInstallProcess_enter ::
  "installation \<Rightarrow> pythonInstallSettings \<Rightarrow> bool \<Rightarrow> returned option \<times> installation" where
  "startInstallProcess_enter s installSettings isPythonRunning =
     (if \<not> existingPython installSettings \<and> isPythonRunning
      then (Some (ReturnsRejected msgPythonRunningError), s)
      else if installInProgress s
      then (case installCompletion s of
              Some d \<Rightarrow> (Some (ReturnsCompletion d), s)
            | None \<Rightarrow> (Some (ReturnsRejected ''Cannot read property promise of undefined''), s))
      else (None,
            s\<lparr>installInProgress := True,
              installCompletion := Some (length (deferreds s)),
              deferreds := deferreds s @ [Pending],
              pythonInstallationPath := installPath installSettings,
              usingExistingPython := existingPython installSettings,
              suspended := suspended s + 1\<rparr>))"

text \<open>
  \<open>startInstallProcess\<close> from its entry: the default settings are filled in from the
  state in which the call is made. A call for an existing Python goes on to the flag at
  once (\<open>isPythonRunning\<close> is not asked; its answer is not read, and is \<open>False\<close> here);
  any other call waits for \<open>isPythonRunning\<close>, and changes nothing until then.
\<close>

definition startInstallProcess_call ::
  "installation \<Rightarrow> pythonInstallSettings option \<Rightarrow> returned option \<times> installation" where
  "startInstallProcess_call s given =
     (if existingPython (installSettingsOrDefault s given)
      then startInstallProcess_enter s (installSettingsOrDefault s given) False
      else (None, s\<lparr>pythonChecks := pythonChecks s @ [installSettingsOrDefault s given]\<rparr>))"

text \<open>
  A waiting call (the one at index \<open>i\<close> of \<open>pythonChecks\<close>) gets the answer of
  \<open>isPythonRunning\<close> and goes on, in the state of that moment.
\<close>

definition startInstallProcess_checked ::
  "installation \<Rightarrow> nat \<Rightarrow> bool \<Rightarrow> returned option \<times> installation" where
  "startInstallProcess_checked s i isPythonRunning =
     startInstallProcess_enter
       (s\<lparr>pythonChecks := take i (pythonChecks s) @ drop (Suc i) (pythonChecks s)\<rparr>)
       (pythonChecks s ! i) isPythonRunning"

text \<open>
  The rest of the call, once \<open>configurePackagePaths\<close> has settled: the background
  operation is started and the completion promise returned, or the call rejects with
  what \<open>configurePackagePaths\<close> threw.
\<close>

definition startInstallProcess_resume ::
  "installation \<Rightarrow> string option \<Rightarrow> returned \<times> installation" where
  "startInstallProcess_resume s configureError =
     (case configureError of
        Some err \<Rightarrow> (ReturnsRejected err, s\<lparr>suspended := suspended s - 1\<rparr>)
      | None \<Rightarrow>
          (case installCompletion s of
             Some d \<Rightarrow>
               (ReturnsCompletion d,
                s\<lparr>suspended := suspended s - 1,
                  installing := installing s + 1,
                  started := started s + 1\<rparr>)
           | None \<Rightarrow>
               (ReturnsRejected ''Cannot read property promise of undefined'',
                s\<lparr>suspended := suspended s - 1,
                  installing := installing s + 1,
                  started := started s + 1\<rparr>)))"

text \<open>Settling a promise that is already settled changes nothing.\<close>

definition settle :: "nat option \<Rightarrow> promise_state \<Rightarrow> promise_state list \<Rightarrow> promise_state list" where
  "settle d st ds =
     (case d of
        None \<Rightarrow> ds
      | Some i \<Rightarrow> if i < length ds \<and> ds ! i = Pending then ds[i := st] else ds)"

text \<open>
  The two handlers behind \<open>installDependencies\<close>: \<open>then\<close> resolves the completion,
  \<open>catch\<close> (reached from a failed installation as well as from a failure inside \<open>then\<close>)
  rejects it; both clear the flag.
\<close>

definition installDependencies_settled :: "installation \<Rightarrow> string option \<Rightarrow> installation" where
  "installDependencies_settled s failure =
     s\<lparr>deferreds :=
         settle (installCompletion s)
           (case failure of
              None \<Rightarrow> Fulfilled
            | Some err \<Rightarrow> RejectedWith (msgDependenciesInstallationFailed err))
           (deferreds s),
       installInProgress := False,
       installing := installing s - 1\<rparr>"

text \<open>
  \<open>promptForPythonInstall\<close> up to the point where it starts the wizard. The two
  booleans are the answers of \<open>isPythonInstalled\<close> and \<open>areRequiredPackagesInstalled\<close>.
\<close>

definition promptForPythonInstall ::
  "installation \<Rightarrow> bool \<Rightarrow> bool \<Rightarrow> returned \<times> installation" where
  "promptForPythonInstall s pythonInstalled requiredPackagesInstalled =
     (if runningOnSAW s then (ReturnsResolved, s)
      else if installInProgress s
      then (case installCompletion s of
              Some d \<Rightarrow> (ReturnsCompletion d, s)
            | None \<Rightarrow> (ReturnsRejected ''Cannot read property promise of undefined'', s))
      else if \<not> pythonInstalled \<or> \<not> requiredPackagesInstalled
      then (ReturnsSetupComplete, s)
      else (ReturnsResolved, s))"

text \<open>
  JavaScript runs each stretch of code between two \<open>await\<close>s without interruption, so a
  run of the object is a sequence of such stretches: a call of \<open>startInstallProcess\<close>
  being made, a waiting call getting the answer of \<open>isPythonRunning\<close> and passing its
  checks, a suspended call resuming after \<open>configurePackagePaths\<close>, the handlers of
  \<open>installDependencies\<close>, and a call of \<open>promptForPythonInstall\<close>. A stretch that has
  nothing to resume (no waiting call at that index, no suspended call, no installation
  under way) cannot happen and is skipped.
\<close>

datatype install_event =
    StartInstallProcess "pythonInstallSettings option"
  | IsPythonRunningSettled nat bool
  | ConfigurePackagePathsSettled "string option"
  | InstallDependenciesSettled "string option"
  | PromptForPythonInstall bool bool

fun install_step :: "installation \<Rightarrow> install_event \<Rightarrow> installation" where
  "install_step s (StartInstallProcess given) = snd (startInstallProcess_call s given)"
| "install_step s (IsPythonRunningSettled i isPythonRunning) =
     (if i < length (pythonChecks s) then snd (startInstallProcess_checked s i isPythonRunning)
      else s)"
| "install_step s (ConfigurePackagePathsSettled configureError) =
     (if suspended s > 0 then snd (startInstallProcess_resume s configureError) else s)"
| "install_step s (InstallDependenciesSettled failure) =
     (if installing s > 0 then installDependencies_settled s failure else s)"
| "install_step s (PromptForPythonInstall pythonInstalled requiredPackagesInstalled) =
     snd (promptForPythonInstall s pythonInstalled requiredPackagesInstalled)"

definition install_run :: "installation \<Rightarrow> install_event list \<Rightarrow> installation" where
  "install_run s events = foldl install_step s events"

text \<open>What holds of the object after every run from the constructor.\<close>

definition install_inv :: "installation \<Rightarrow> bool" where
  "install_inv s =
     (suspended s + installing s \<le> 1 \<and>
      (installInProgress s \<or> suspended s + installing s = 0) \<and>
      (\<not> installInProgress s \<or>
         (case installCompletion s of
            None \<Rightarrow> False
          | Some d \<Rightarrow> d < length (deferreds s) \<and> deferreds s ! d = Pending)))"

section \<open>ConnectionBrowserView.expandAll (connection/browser/connectionBrowseTab.ts)\<close>

text \<open>
  The loop of \<open>expandAll\<close>. \<open>expandable s\<close> is \<open>this.treeDataSource.expandableTreeNodes\<close>
  in the state \<open>s\<close> of the view, and \<open>expand\<close> is \<open>this.tree.expand\<close>, a method of the
  tree widget. The items are expanded in order, then pushed onto \<open>expandedTreeItems\<close>;
  the result is the final \<open>expandedTreeItems\<close>, which lists every call of \<open>expand\<close> in
  the order in which it was made, and the final state. Not returning is \<open>None\<close>.
\<close>

partial_function (option) expandAll_loop ::
  "('a \<Rightarrow> 's \<Rightarrow> 's) \<Rightarrow> ('s \<Rightarrow> 'a list) \<Rightarrow> 'a list \<Rightarrow> 'a list \<Rightarrow> 's \<Rightarrow> ('a list \<times> 's) option" where
  "expandAll_loop expand expandable treeItemsToExpand expandedTreeItems s =
     (if length treeItemsToExpand \<noteq> 0
      then expandAll_loop expand expandable
             (filter (\<lambda>el. el \<notin> set (expandedTreeItems @ treeItemsToExpand))
                (expandable (foldl (\<lambda>st treeItem. expand treeItem st) s treeItemsToExpand)))
             (expandedTreeItems @ treeItemsToExpand)
             (foldl (\<lambda>st treeItem. expand treeItem st) s treeItemsToExpand)
      else Some (expandedTreeItems, s))"

declare expandAll_loop.simps [code]

definition expandAll :: "('a \<Rightarrow> 's \<Rightarrow> 's) \<Rightarrow> ('s \<Rightarrow> 'a list) \<Rightarrow> 's \<Rightarrow> ('a list \<times> 's) option" where
  "expandAll expand expandable s = expandAll_loop expand expandable (expandable s) [] s"

text \<open>
  The elements of the tree (\<open>TreeElement\<close>), by class; an item from a provider carries
  whether its \<open>collapsibleState\<close> differs from \<open>None\<close>. An element comes with the children
  that \<open>DataSource.getChildren\<close> finds for it under the current filter.
\<close>

datatype elementKind =
    ConnectionDialogTreeProviderElement
  | ITreeItemFromProvider bool
  | SavedConnectionNode
  | ConnectionProfile
  | ConnectionProfileGroup
  | TreeNode

datatype treeElement = Element (kindOf: elementKind) (childrenOf: "treeElement list")

text \<open>
  JavaScript compares elements by identity (\<open>indexOf\<close>). In a tree, the identity of an
  element is its position: the path of child indices from the root. A node is an
  element together with its path.
\<close>

type_synonym node = "nat list \<times> treeElement"

definition childNodes :: "nat list \<Rightarrow> treeElement list \<Rightarrow> node list" where
  "childNodes p cs = map (\<lambda>i. (p @ [i], cs ! i)) [0..<length cs]"

text \<open>The filter of the getter \<open>expandableTreeNodes\<close>, on the classes a \<open>TreeElement\<close>
  can have.\<close>

fun isExpandable :: "node \<Rightarrow> bool" where
  "isExpandable (p, Element ConnectionDialogTreeProviderElement cs) = True"
| "isExpandable (p, Element SavedConnectionNode cs) = True"
| "isExpandable (p, Element ConnectionProfileGroup cs) = True"
| "isExpandable (p, Element (ITreeItemFromProvider collapsible) cs) = collapsible"
| "isExpandable (p, Element ConnectionProfile cs) = False"
| "isExpandable (p, Element TreeNode cs) = False"

text \<open>
  The view: \<open>treeDataSource.treeNodes\<close>, and the elements whose children the tree widget
  has fetched already.
\<close>

record browserView =
  treeNodes :: "node list"
  loaded :: "nat list list"

definition expandableTreeNodes :: "browserView \<Rightarrow> node list" where
  "expandableTreeNodes v = filter isExpandable (treeNodes v)"

text \<open>
  \<open>DataSource.getChildren\<close> on a \<open>TreeElement\<close>: the children are pushed onto
  \<open>treeNodes\<close>, except for a \<open>ConnectionProfile\<close>, which has none.
\<close>

definition getChildren :: "node \<Rightarrow> node list \<Rightarrow> node list" where
  "getChildren n nodes =
     (if kindOf (snd n) = ConnectionProfile then nodes
      else nodes @ childNodes (fst n) (childrenOf (snd n)))"

text \<open>
  Modelled from the spec: \<open>tree.expand\<close> of the tree widget (\<open>WorkbenchAsyncDataTree\<close>),
  which is not among the sources. On a finite tree, expanding an element for the first
  time fetches its children through \<open>DataSource.getChildren\<close>; the children of an
  element are fetched once.
\<close>

definition tree_expand :: "node \<Rightarrow> browserView \<Rightarrow> browserView" where
  "tree_expand n v =
     (if fst n \<in> set (loaded v) then v
      else v\<lparr>treeNodes := getChildren n (treeNodes v), loaded := fst n # loaded v\<rparr>)"

text \<open>
  The view after \<open>TreeModel.getChildren\<close>: \<open>treeNodes\<close> holds the children of the root
  (the list \<open>roots\<close>), and nothing below them has been fetched.
\<close>

definition initialView :: "treeElement list \<Rightarrow> browserView" where
  "initialView roots = \<lparr>treeNodes = childNodes [] roots, loaded = []\<rparr>"

text \<open>All the nodes of the tree below a path, in preorder.\<close>

primrec subtreeNodes :: "treeElement \<Rightarrow> nat list \<Rightarrow> node list" where
  "subtreeNodes (Element k cs) p =
     (p, Element k cs)
       # concat (map (\<lambda>i. (map subtreeNodes cs ! i) (p @ [i])) [0..<length cs])"

definition forestNodes :: "nat list \<Rightarrow> treeElement list \<Rightarrow> node list" where
  "forestNodes p cs = concat (map (\<lambda>i. subtreeNodes (cs ! i) (p @ [i])) [0..<length cs])"

text \<open>
  A view of the tree with the roots \<open>roots\<close>: \<open>treeNodes\<close> holds nodes of the tree, each
  once, and the children of an element are in it only if they have been fetched.
\<close>

definition view_of :: "treeElement list \<Rightarrow> browserView \<Rightarrow> bool" where
  "view_of roots v =
     (distinct (map fst (treeNodes v)) \<and>
      list_all (\<lambda>n. n \<in> set (forestNodes [] roots)) (treeNodes v) \<and>
      list_all (\<lambda>n. length (fst n) \<le> 1 \<or> butlast (fst n) \<in> set (loaded v)) (treeNodes v))"

section \<open>Comparison validations (ui/validation/validations.ts, by its tests)\<close>

text \<open>
  A JavaScript number: a finite value (every finite double is a rational, and the two
  zeros compare equal), an infinity, or \<open>NaN\<close>.
\<close>

datatype number = NaN | NegInfinity | Finite rat | PosInfinity

text \<open>\<open>ValidationValueType = string | number | undefined\<close>, as the tests use it.\<close>

datatype validationValue = StringValue string | NumberValue number | UndefinedValue

text \<open>The native \<open><=\<close> of numbers: false as soon as one side is \<open>NaN\<close>.\<close>

fun number_le :: "number \<Rightarrow> number \<Rightarrow> bool" where
  "number_le NaN y = False"
| "number_le x NaN = False"
| "number_le NegInfinity y = True"
| "number_le x PosInfinity = True"
| "number_le (Finite a) (Finite b) = (a \<le> b)"
| "number_le x y = False"

text \<open>The native \<open><=\<close> of strings: lexicographic, by character code.\<close>

fun string_le :: "string \<Rightarrow> string \<Rightarrow> bool" where
  "string_le [] t = True"
| "string_le (c # s) [] = False"
| "string_le (c # s) (d # t) =
     (if (of_char c :: nat) < of_char d then True
      else if (of_char d :: nat) < of_char c then False
      else string_le s t)"

text \<open>
  The number an operand stands for in a numeric comparison. The conversion of a string
  (JavaScript's \<open>ToNumber\<close>) is a parameter; \<open>undefined\<close> converts to \<open>NaN\<close>.
\<close>

fun asNumber :: "(string \<Rightarrow> number) \<Rightarrow> validationValue \<Rightarrow> number" where
  "asNumber toNumber (StringValue s) = toNumber s"
| "asNumber toNumber (NumberValue n) = n"
| "asNumber toNumber UndefinedValue = NaN"

text \<open>
  Modelled from the spec: the comparison of \<open>LessThanOrEqualsValidation\<close> in
  validations.ts, of which only the tests are among the sources. Two strings are compared
  as strings; an \<open>undefined\<close> operand makes the comparison fail; every other pair is
  compared as numbers.
\<close>

fun lessThanOrEquals :: "(string \<Rightarrow> number) \<Rightarrow> validationValue \<Rightarrow> validationValue \<Rightarrow> bool" where
  "lessThanOrEquals toNumber (StringValue a) (StringValue b) = string_le a b"
| "lessThanOrEquals toNumber UndefinedValue target = False"
| "lessThanOrEquals toNumber v UndefinedValue = False"
| "lessThanOrEquals toNumber v target =
     number_le (asNumber toNumber v) (asNumber toNumber target)"

text \<open>
  Modelled from the spec: the comparison of \<open>GreaterThanOrEqualsValidation\<close> in
  validations.ts, of which only the tests are among the sources: the same cases, with
  the operands of the native comparison exchanged.
\<close>

fun greaterThanOrEquals :: "(string \<Rightarrow> number) \<Rightarrow> validationValue \<Rightarrow> validationValue \<Rightarrow> bool" where
  "greaterThanOrEquals toNumber (StringValue a) (StringValue b) = string_le b a"
| "greaterThanOrEquals toNumber UndefinedValue target = False"
| "greaterThanOrEquals toNumber v UndefinedValue = False"
| "greaterThanOrEquals toNumber v target =
     number_le (asNumber toNumber target) (asNumber toNumber v)"

text \<open>
  The result of \<open>validate\<close>, as \<open>testValidation\<close> reads it: \<open>valid\<close>, and the description
  of the validation as \<open>message\<close> when the value is not valid.
\<close>

record validationResult =
  valid :: bool
  result_message :: "string option"

text \<open>
  Modelled from the spec: \<open>validate\<close> of the two comparison validations (validations.ts
  is not among the sources). \<open>getValue\<close> and \<open>getVariableValue(target)\<close> have been
  awaited; their values are the two operands.
\<close>

definition LessThanOrEqualsValidation_validate ::
  "(string \<Rightarrow> number) \<Rightarrow> string \<Rightarrow> validationValue \<Rightarrow> validationValue \<Rightarrow> validationResult" where
  "LessThanOrEqualsValidation_validate toNumber description v target =
     (if lessThanOrEquals toNumber v target
      then \<lparr>valid = True, result_message = None\<rparr>
      else \<lparr>valid = False, result_message = Some description\<rparr>)"

definition GreaterThanOrEqualsValidation_validate ::
  "(string \<Rightarrow> number) \<Rightarrow> string \<Rightarrow> validationValue \<Rightarrow> validationValue \<Rightarrow> validationResult" where
  "GreaterThanOrEqualsValidation_validate toNumber description v target =
     (if greaterThanOrEquals toNumber v target
      then \<lparr>valid = True, result_message = None\<rparr>
      else \<lparr>valid = False, result_message = Some description\<rparr>)"

text \<open>
  A conversion for the examples. It is not JavaScript's \<open>ToNumber\<close>: it agrees with it
  on the empty string and on strings of decimal digits that denote an integer below
  \<open>2^53\<close>, and gives \<open>NaN\<close> for every other string (signs, fractions, exponents and
  surrounding blanks included), which \<open>ToNumber\<close> does not. It is used only on strings
  of the first kind.
\<close>

fun digitsValue :: "nat \<Rightarrow> string \<Rightarrow> nat option" where
  "digitsValue acc [] = Some acc"
| "digitsValue acc (c # s) =
     (if (48::nat) \<le> of_char c \<and> (of_char c :: nat) \<le> 57
      then digitsValue (10 * acc + (of_char c - 48)) s
      else None)"

definition decimalToNumber :: "string \<Rightarrow> number" where
  "decimalToNumber s =
     (if s = [] then Finite 0
      else (case digitsValue 0 s of None \<Rightarrow> NaN | Some n \<Rightarrow> Finite (of_nat n)))"

section \<open>Project (sql-database-projects/src/models/project.ts, by src/test/project.test.ts)\<close>

datatype systemDatabase = master | msdb

text \<open>The entries of \<open>databaseReferences\<close>, by the settings they are made from.\<close>

datatype databaseReferenceEntry =
    SystemDatabaseReferenceProjectEntry string systemDatabase bool
  | DacpacReferenceProjectEntry string bool

record systemDatabaseReferenceSettings =
  sys_databaseName :: string
  systemDb :: systemDatabase
  sys_suppressMissingDependenciesErrors :: bool

record dacpacReferenceSettings =
  dacpacFileLocation :: string
  dac_suppressMissingDependenciesErrors :: bool

text \<open>
  The fields of \<open>Project\<close> that the tests of references, SQLCMD variables and round trip
  read. \<open>sqlCmdVariables\<close> is a \<open>Record<string, string>\<close>.
\<close>

record project =
  projectFilePath :: string
  databaseReferences :: "databaseReferenceEntry list"
  sqlCmdVariables :: "string \<rightharpoonup> string"
  importedTargets :: "string list"

datatype project_error = databaseReferenceAlreadyExists | projectFileNotFound

text \<open>
  Modelled from the spec: \<open>Project.addSystemDatabaseReference\<close> and
  \<open>Project.addDatabaseReference\<close> of project.ts, of which only the tests are among the
  sources. The request fails when an entry equivalent to the requested one is present
  (what makes two entries equivalent is the parameter \<open>equivalent\<close>), and otherwise
  appends the entry. A call gives its outcome and the project after it.
\<close>

definition addDatabaseReferenceEntry ::
  "(databaseReferenceEntry \<Rightarrow> databaseReferenceEntry \<Rightarrow> bool) \<Rightarrow> databaseReferenceEntry \<Rightarrow>
   project \<Rightarrow> (project_error + unit) \<times> project" where
  "addDatabaseReferenceEntry equivalent entry p =
     (if list_ex (equivalent entry) (databaseReferences p)
      then (Inl databaseReferenceAlreadyExists, p)
      else (Inr (), p\<lparr>databaseReferences := databaseReferences p @ [entry]\<rparr>))"

definition addSystemDatabaseReference ::
  "(databaseReferenceEntry \<Rightarrow> databaseReferenceEntry \<Rightarrow> bool) \<Rightarrow>
   systemDatabaseReferenceSettings \<Rightarrow> project \<Rightarrow> (project_error + unit) \<times> project" where
  "addSystemDatabaseReference equivalent settings p =
     addDatabaseReferenceEntry equivalent
       (SystemDatabaseReferenceProjectEntry (sys_databaseName settings) (systemDb settings)
          (sys_suppressMissingDependenciesErrors settings)) p"

definition addDatabaseReference ::
  "(databaseReferenceEntry \<Rightarrow> databaseReferenceEntry \<Rightarrow> bool) \<Rightarrow>
   dacpacReferenceSettings \<Rightarrow> project \<Rightarrow> (project_error + unit) \<times> project" where
  "addDatabaseReference equivalent settings p =
     addDatabaseReferenceEntry equivalent
       (DacpacReferenceProjectEntry (dacpacFileLocation settings)
          (dac_suppressMissingDependenciesErrors settings)) p"

text \<open>Two entries made from the same settings; the equivalence used in the examples.\<close>

definition sameEntry :: "databaseReferenceEntry \<Rightarrow> databaseReferenceEntry \<Rightarrow> bool" where
  "sameEntry a b = (a = b)"

text \<open>
  Modelled from the spec: \<open>Project.addSqlCmdVariable\<close> of project.ts (only its test is
  among the sources): the value is stored under the name, in place of the value an
  existing variable of that name had.
\<close>

definition addSqlCmdVariable :: "string \<Rightarrow> string \<Rightarrow> project \<Rightarrow> project" where
  "addSqlCmdVariable n defaultValue p =
     p\<lparr>sqlCmdVariables := (sqlCmdVariables p)(n \<mapsto> defaultValue)\<rparr>"

text \<open>A sequence of calls, each with its name and value, in order.\<close>

definition addSqlCmdVariables :: "(string \<times> string) list \<Rightarrow> project \<Rightarrow> project" where
  "addSqlCmdVariables calls p = foldl (\<lambda>q (n, v). addSqlCmdVariable n v q) p calls"

text \<open>
  The disk, as far as the round trip touches it: the content of each file, and the
  operations on files in the order in which they were made.
\<close>

datatype file_op = CopyFile string string | WriteFile string

record disk =
  files :: "string \<rightharpoonup> string"
  ops :: "file_op list"

text \<open>
  Modelled from the spec: \<open>Project.updateProjectForRoundTrip\<close> of project.ts (only its
  test is among the sources). The project file is copied to the path with \<open>_backup\<close>
  appended; then one import target (\<open>target\<close>) is added to the project and the project
  file is written again. What is written is the parameter \<open>serialize\<close>. Without a
  project file the copy fails and nothing is changed.
\<close>

definition updateProjectForRoundTrip ::
  "(project \<Rightarrow> string) \<Rightarrow> string \<Rightarrow> project \<Rightarrow> disk \<Rightarrow>
   (project_error + unit) \<times> project \<times> disk" where
  "updateProjectForRoundTrip serialize target p d =
     (case files d (projectFilePath p) of
        None \<Rightarrow> (Inl projectFileNotFound, p, d)
      | Some content \<Rightarrow>
          (let backup = d\<lparr>files := (files d)(projectFilePath p @ ''_backup'' \<mapsto> content),
                          ops := ops d @ [CopyFile (projectFilePath p)
                                            (projectFilePath p @ ''_backup'')]\<rparr>;
               p' = p\<lparr>importedTargets := importedTargets p @ [target]\<rparr>
           in (Inr (), p',
               backup\<lparr>files := (files backup)(projectFilePath p \<mapsto> serialize p'),
                      ops := ops backup @ [WriteFile (projectFilePath p)]\<rparr>)))"

section \<open>Example data\<close>

definition failingHost :: pkg_host where
  "failingHost =
     \<lparr>existsSync = (\<lambda>p. False), isPythonInstalled = Inr True, isCondaInstalled = Inr True,
      executeBufferedCommand = (\<lambda>c. Inl (Thrown ''spawn ENOENT'')),
      JSON_parse = (\<lambda>s. Inl (Thrown ''Unexpected token'')),
      pythonExecutable = ''python3'', condaExePath = ''conda''\<rparr>"

definition subA :: subscription where
  "subA = \<lparr>sub_id = ''id-a'', sub_name = ''Alpha''\<rparr>"

definition subB :: subscription where
  "subB = \<lparr>sub_id = ''id-b'', sub_name = ''Beta''\<rparr>"

text \<open>A comparator for the examples: shorter labels first.\<close>

definition byLength :: "string \<Rightarrow> string \<Rightarrow> int" where
  "byLength a b = int (length a) - int (length b)"

definition bundledSettings :: pythonInstallSettings where
  "bundledSettings =
     \<lparr>installPath = ''azuredatastudio-python'', existingPython = False,
      packages = [(''jupyter'', ''1.0.0'')]\<rparr>"

text \<open>An installation under way: one call has passed its checks and started the
  background operation.\<close>

definition installingState :: installation where
  "installingState =
     install_run (newInstallation False ''azuredatastudio-python'' False [(''jupyter'', ''1.0.0'')])
       [StartInstallProcess (Some bundledSettings), IsPythonRunningSettled 0 False,
        ConfigurePackagePathsSettled None]"

text \<open>A second call is made during that installation and waits for \<open>isPythonRunning\<close>;
  the installation finishes before the answer comes.\<close>

definition lateCheckState :: installation where
  "lateCheckState =
     install_run installingState [StartInstallProcess None, InstallDependenciesSettled None]"

definition existingSettings :: pythonInstallSettings where
  "existingSettings =
     \<lparr>installPath = ''/usr'', existingPython = True, packages = [(''jupyter'', ''1.0.0'')]\<rparr>"

definition sampleRoots :: "treeElement list" where
  "sampleRoots =
     [Element SavedConnectionNode
        [Element ConnectionProfileGroup [Element ConnectionProfile []],
         Element ConnectionProfile []],
      Element ConnectionDialogTreeProviderElement
        [Element (ITreeItemFromProvider True) [Element (ITreeItemFromProvider False) []]]]"

definition masterSettings :: systemDatabaseReferenceSettings where
  "masterSettings =
     \<lparr>sys_databaseName = ''master'', systemDb = master,
      sys_suppressMissingDependenciesErrors = False\<rparr>"

definition testDacpacSettings :: dacpacReferenceSettings where
  "testDacpacSettings =
     \<lparr>dacpacFileLocation = ''test.dacpac'', dac_suppressMissingDependenciesErrors = False\<rparr>"

definition newProject :: project where
  "newProject =
     \<lparr>projectFilePath = ''TestProjectName.sqlproj'', databaseReferences = [],
      sqlCmdVariables = Map.empty, importedTargets = []\<rparr>"

text \<open>The project of the test of duplicate references, after its two successful adds.\<close>

definition projectWithReferences :: project where
  "projectWithReferences =
     snd (addDatabaseReference sameEntry testDacpacSettings
            (snd (addSystemDatabaseReference sameEntry masterSettings newProject)))"

definition openedProject :: project where
  "openedProject =
     \<lparr>projectFilePath = ''TestProjectName.sqlproj'', databaseReferences = [],
      sqlCmdVariables = [''ProdDatabaseName'' \<mapsto> ''MyProdDatabase'',
                         ''BackupDatabaseName'' \<mapsto> ''MyBackupDatabase''],
      importedTargets = []\<rparr>"

definition ssdtProject :: project where
  "ssdtProject =
     \<lparr>projectFilePath = ''TestProjectName.sqlproj'', databaseReferences = [],
      sqlCmdVariables = Map.empty,
      importedTargets = [''Microsoft.Data.Tools.Schema.SqlTasks.targets'',
                         ''Microsoft.Common.targets'']\<rparr>"

definition ssdtDisk :: disk where
  "ssdtDisk = \<lparr>files = [''TestProjectName.sqlproj'' \<mapsto> ''<Project/>''], ops = []\<rparr>"

section \<open>Properties of UserDataAutoSyncService\<close>

text \<open>
  C6. \<open>UserDataAutoSyncService\<close> is a pure forwarder: \<open>triggerSync\<close>, \<open>turnOn\<close> and
  \<open>turnOff\<close> each return exactly what the call of the same command, with the same
  arguments, on the channel \<open>userDataAutoSync\<close> returns; the only effect is that of the
  channel call, and the service itself is unchanged.
\<close>

theorem UserDataAutoSyncService_forwards:
  "triggerSync call sources hasToLimitSync disableCache (newUserDataAutoSyncService, w) =
     (fst (call ''userDataAutoSync'' ''triggerSync''
             (Some [ArgStrings sources, ArgBool hasToLimitSync, ArgBool disableCache]) w),
      newUserDataAutoSyncService,
      snd (call ''userDataAutoSync'' ''triggerSync''
             (Some [ArgStrings sources, ArgBool hasToLimitSync, ArgBool disableCache]) w))
   \<and> turnOn call (newUserDataAutoSyncService, w) =
     (fst (call ''userDataAutoSync'' ''turnOn'' None w),
      newUserDataAutoSyncService,
      snd (call ''userDataAutoSync'' ''turnOn'' None w))
   \<and> turnOff call everywhere (newUserDataAutoSyncService, w) =
     (fst (call ''userDataAutoSync'' ''turnOff'' (Some [ArgBool everywhere]) w),
      newUserDataAutoSyncService,
      snd (call ''userDataAutoSync'' ''turnOff'' (Some [ArgBool everywhere]) w))"
  by (simp add: triggerSync_def turnOn_def turnOff_def newUserDataAutoSyncService_def
      split: prod.splits)

section \<open>Properties of NewProjectDialog.validate\<close>

lemma validate_try_cases:
  "validate_try de pj m msgs =
     (if de (location m) = Inr True \<and> de (pj (location m) (name m)) = Inr False
      then (Inr True, msgs)
      else (case de (location m) of
              Inl err \<Rightarrow> (Inl err, msgs)
            | Inr False \<Rightarrow> (Inr False, msgs @ [ProjectParentDirectoryNotExistError (location m)])
            | Inr True \<Rightarrow>
                (case de (pj (location m) (name m)) of
                   Inl err \<Rightarrow> (Inl err, msgs)
                 | Inr b \<Rightarrow> (Inr False,
                      msgs @ [ProjectDirectoryAlreadyExistError (name m) (location m)]))))"
  by (auto simp: validate_try_def split: sum.splits bool.splits)

text \<open>
  C8. \<open>validate\<close> never rejects. It resolves to true exactly when the location is found
  to be an existing directory and the directory of the project is found not to exist
  in it, and then shows nothing; in every other case, a throwing check included, it
  shows one error message and resolves to false.
\<close>

theorem validate_resolves:
  "(\<exists>b. fst (validate directoryExist path_join m msgs) = Resolved b)
   \<and> (fst (validate directoryExist path_join m msgs) = Resolved True) =
       (directoryExist (location m) = Inr True
        \<and> directoryExist (path_join (location m) (name m)) = Inr False)
   \<and> (if directoryExist (location m) = Inr True
          \<and> directoryExist (path_join (location m) (name m)) = Inr False
       then validate directoryExist path_join m msgs = (Resolved True, msgs)
       else fst (validate directoryExist path_join m msgs) = Resolved False
            \<and> (\<exists>shownMessage. snd (validate directoryExist path_join m msgs)
                                 = msgs @ [shownMessage]))"
  by (auto simp: validate_def validate_try_cases split: sum.splits bool.splits)

section \<open>Properties of the lists of installed packages\<close>

text \<open>
  C9. \<open>getInstalledPipPackages\<close> and \<open>getInstalledCondaPackages\<close> never reject. Each
  resolves to the empty list when its check finds no Python (no conda), and when the
  check, the spawned list command or the parsing of its output throws.
\<close>

theorem getInstalledPackages_never_reject:
  "(\<exists>pkgs. fst (getInstalledPipPackages h pythonExePath out) = Resolved pkgs)
   \<and> (\<exists>pkgs. fst (getInstalledCondaPackages h out) = Resolved pkgs)
   \<and> (pythonFound h pythonExePath = Inr False
        \<longrightarrow> fst (getInstalledPipPackages h pythonExePath out) = Resolved (JArr []))
   \<and> (isCondaInstalled h = Inr False
        \<longrightarrow> fst (getInstalledCondaPackages h out) = Resolved (JArr []))
   \<and> ((\<exists>err. pythonFound h pythonExePath = Inl err
             \<or> executeBufferedCommand h (pipListCommand h pythonExePath) = Inl err
             \<or> (\<exists>info. executeBufferedCommand h (pipListCommand h pythonExePath) = Inr info
                        \<and> JSON_parse h info = Inl err))
        \<longrightarrow> fst (getInstalledPipPackages h pythonExePath out) = Resolved (JArr []))
   \<and> ((\<exists>err. isCondaInstalled h = Inl err
             \<or> executeBufferedCommand h (condaListCommand h) = Inl err
             \<or> (\<exists>info. executeBufferedCommand h (condaListCommand h) = Inr info
                        \<and> JSON_parse h info = Inl err))
        \<longrightarrow> fst (getInstalledCondaPackages h out) = Resolved (JArr []))"
  by (auto simp: getInstalledPipPackages_def getInstalledPipPackages_try_def
      getInstalledCondaPackages_def getInstalledCondaPackages_try_def
      split: sum.splits json.splits)

theorem getInstalledPackages_never_reject_witness:
  "pythonFound failingHost (Some ''/opt/python'') = Inr False
   \<and> executeBufferedCommand failingHost (pipListCommand failingHost None)
       = Inl (Thrown ''spawn ENOENT'')
   \<and> executeBufferedCommand failingHost (condaListCommand failingHost)
       = Inl (Thrown ''spawn ENOENT'')
   \<and> fst (getInstalledPipPackages failingHost (Some ''/opt/python'') []) = Resolved (JArr [])
   \<and> fst (getInstalledPipPackages failingHost None []) = Resolved (JArr [])
   \<and> fst (getInstalledCondaPackages failingHost []) = Resolved (JArr [])"
  using getInstalledPackages_never_reject [of failingHost "Some ''/opt/python''" "[]"]
    getInstalledPackages_never_reject [of failingHost None "[]"]
  by (simp add: failingHost_def pythonFound_def)

section \<open>Properties of the subscription quick pick\<close>

lemma mset_insertItem: "mset (insertItem c x ys) = add_mset x (mset ys)"
  by (induction ys) auto

lemma mset_foldl_insertItem:
  "mset (foldl (\<lambda>acc x. insertItem c x acc) acc xs) = mset acc + mset xs"
  by (induction xs arbitrary: acc) (auto simp: mset_insertItem)

lemma mset_sortItems: "mset (sortItems c xs) = mset xs"
  by (simp add: sortItems_def mset_foldl_insertItem)

lemma set_sortItems: "set (sortItems c xs) = set xs"
  using mset_sortItems [of c xs] by (metis set_mset_mset)

lemma selectedSubscriptionIds_none:
  "selected = None \<or> selected = Some [] \<Longrightarrow>
   selectedSubscriptionIds selected subscriptions = map sub_id subscriptions"
  by (auto simp: selectedSubscriptionIds_def)

lemma selectedSubscriptionIds_some:
  "previous \<noteq> [] \<Longrightarrow>
   selectedSubscriptionIds (Some previous) subscriptions = map sub_id previous"
  by (auto simp: selectedSubscriptionIds_def)

text \<open>
  C7. The quick pick lists every fetched subscription once. When the filter service
  reports no selected subscriptions (\<open>undefined\<close> or an empty list), every item is
  picked; otherwise an item is picked exactly when the id of its subscription is one of
  the previously selected ids.
\<close>

theorem selectsubscriptions_picked:
  "mset (map item_subscription (subscriptionQuickPickItems localeCompare selected subscriptions))
     = mset subscriptions
   \<and> (selected = None \<or> selected = Some [] \<longrightarrow>
        list_all picked (subscriptionQuickPickItems localeCompare selected subscriptions))
   \<and> (\<forall>previous. selected = Some previous \<and> previous \<noteq> [] \<longrightarrow>
        (\<forall>it \<in> set (subscriptionQuickPickItems localeCompare selected subscriptions).
           picked it = (sub_id (item_subscription it) \<in> sub_id ` set previous)))"
proof (intro conjI impI allI)
  have "mset (map item_subscription
               (subscriptionQuickPickItems localeCompare selected subscriptions))
        = image_mset item_subscription
            (mset (subscriptionQuickPickItems localeCompare selected subscriptions))"
    by simp
  also have "\<dots> = mset subscriptions"
    by (simp add: subscriptionQuickPickItems_def mset_sortItems image_mset.compositionality
        comp_def)
  finally show "mset (map item_subscription
                  (subscriptionQuickPickItems localeCompare selected subscriptions))
                = mset subscriptions" .
next
  assume "selected = None \<or> selected = Some []"
  then show "list_all picked (subscriptionQuickPickItems localeCompare selected subscriptions)"
    by (auto simp: subscriptionQuickPickItems_def list_all_iff set_sortItems
        selectedSubscriptionIds_none)
next
  fix previous
  assume "selected = Some previous \<and> previous \<noteq> []"
  then show "\<forall>it \<in> set (subscriptionQuickPickItems localeCompare selected subscriptions).
           picked it = (sub_id (item_subscription it) \<in> sub_id ` set previous)"
    by (auto simp: subscriptionQuickPickItems_def set_sortItems selectedSubscriptionIds_some)
qed

theorem selectsubscriptions_picked_witness:
  "list_all picked (subscriptionQuickPickItems byLength None [subA, subB])
   \<and> subscriptionQuickPickItems byLength None [subA, subB]
       = [\<lparr>label = ''Beta'', picked = True, item_subscription = subB\<rparr>,
          \<lparr>label = ''Alpha'', picked = True, item_subscription = subA\<rparr>]
   \<and> subscriptionQuickPickItems byLength (Some [subB]) [subA, subB]
       = [\<lparr>label = ''Beta'', picked = True, item_subscription = subB\<rparr>,
          \<lparr>label = ''Alpha'', picked = False, item_subscription = subA\<rparr>]"
  using selectsubscriptions_picked [of byLength None "[subA, subB]"]
    selectsubscriptions_picked [of byLength "Some [subB]" "[subA, subB]"]
  by (simp add: subscriptionQuickPickItems_def sortItems_def selectedSubscriptionIds_def
      byLength_def subA_def subB_def)

section \<open>Properties of the install process\<close>

lemma install_inv_checking: "install_inv (s\<lparr>pythonChecks := c\<rparr>) = install_inv s"
  by (simp add: install_inv_def split: option.splits)

lemma install_inv_new: "install_inv (newInstallation saw path existing pkgs)"
  by (simp add: install_inv_def newInstallation_def)

lemma install_inv_enter:
  "install_inv s \<Longrightarrow> install_inv (snd (startInstallProcess_enter s settings r))"
  by (auto simp: install_inv_def startInstallProcess_enter_def nth_append split: option.splits)

lemma install_inv_call:
  "install_inv s \<Longrightarrow> install_inv (snd (startInstallProcess_call s given))"
  by (simp add: startInstallProcess_call_def install_inv_enter install_inv_checking)

lemma install_inv_checked:
  "install_inv s \<Longrightarrow> install_inv (snd (startInstallProcess_checked s i r))"
  by (simp add: startInstallProcess_checked_def install_inv_enter install_inv_checking)

lemma install_inv_resume:
  "install_inv s \<Longrightarrow> suspended s > 0 \<Longrightarrow> install_inv (snd (startInstallProcess_resume s e))"
  by (auto simp: install_inv_def startInstallProcess_resume_def split: option.splits)

lemma install_inv_settled:
  "install_inv s \<Longrightarrow> installing s > 0 \<Longrightarrow> install_inv (installDependencies_settled s e)"
  by (auto simp: install_inv_def installDependencies_settled_def split: option.splits)

lemma install_inv_prompt:
  "install_inv s \<Longrightarrow> install_inv (snd (promptForPythonInstall s a b))"
  by (auto simp: promptForPythonInstall_def split: option.splits)

lemma install_inv_step: "install_inv s \<Longrightarrow> install_inv (install_step s e)"
  by (cases e)
     (simp_all add: install_inv_call install_inv_checked install_inv_resume
        install_inv_settled install_inv_prompt)

lemma install_inv_run: "install_inv s \<Longrightarrow> install_inv (install_run s events)"
  unfolding install_run_def
  by (induction events arbitrary: s) (simp_all add: install_inv_step)

lemma in_progress_enter:
  assumes "install_inv s" and "installInProgress s"
    and "existingPython settings \<or> \<not> isPythonRunning"
  shows "\<exists>d. installCompletion s = Some d \<and> deferreds s ! d = Pending
          \<and> startInstallProcess_enter s settings isPythonRunning = (Some (ReturnsCompletion d), s)"
  using assms
  by (auto simp: install_inv_def startInstallProcess_enter_def split: option.splits)

lemma in_progress_prompt:
  assumes "install_inv s" and "installInProgress s" and "\<not> runningOnSAW s"
  shows "\<exists>d. installCompletion s = Some d
          \<and> promptForPythonInstall s a b = (ReturnsCompletion d, s)"
  using assms
  by (auto simp: install_inv_def promptForPythonInstall_def split: option.splits)

lemma deferreds_kept:
  assumes "install_inv s" and "d < length (deferreds s)"
    and "\<forall>failure. e \<noteq> InstallDependenciesSettled failure"
  shows "deferreds (install_step s e) ! d = deferreds s ! d"
  using assms
  by (cases e)
     (auto simp: startInstallProcess_call_def startInstallProcess_checked_def
        startInstallProcess_enter_def startInstallProcess_resume_def
        promptForPythonInstall_def nth_append split: option.splits)

lemma installingState_eq:
  "installingState =
     \<lparr>installInProgress = True, installCompletion = Some 0,
      pythonInstallationPath = ''azuredatastudio-python'', usingExistingPython = False,
      runningOnSAW = False, python3Packages = [(''jupyter'', ''1.0.0'')],
      deferreds = [Pending], pythonChecks = [], suspended = 0, installing = 1, started = 1\<rparr>"
  by (simp add: installingState_def install_run_def newInstallation_def bundledSettings_def
      startInstallProcess_call_def startInstallProcess_checked_def installSettingsOrDefault_def
      startInstallProcess_enter_def startInstallProcess_resume_def)

lemma lateCheckState_eq:
  "lateCheckState =
     \<lparr>installInProgress = False, installCompletion = Some 0,
      pythonInstallationPath = ''azuredatastudio-python'', usingExistingPython = False,
      runningOnSAW = False, python3Packages = [(''jupyter'', ''1.0.0'')],
      deferreds = [Fulfilled],
      pythonChecks = [\<lparr>installPath = ''azuredatastudio-python'', existingPython = False,
                    packages = [(''jupyter'', ''1.0.0'')]\<rparr>],
      suspended = 0, installing = 0, started = 1\<rparr>"
  by (simp add: lateCheckState_def installingState_eq install_run_def
      startInstallProcess_call_def installSettingsOrDefault_def
      installDependencies_settled_def settle_def)

text \<open>
  A call made while an installation is in progress does not always meet it at the flag:
  when the call waits for \<open>isPythonRunning\<close> and the installation finishes before the
  answer comes, the call finds the flag cleared and starts an installation of its own,
  with a new completion promise. The first installation is over by then.
\<close>

lemma late_check_starts_new_installation:
  "installInProgress installingState
   \<and> startInstallProcess_call installingState None
       = (None, installingState\<lparr>pythonChecks :=
            [\<lparr>installPath = ''azuredatastudio-python'', existingPython = False,
               packages = [(''jupyter'', ''1.0.0'')]\<rparr>]\<rparr>)
   \<and> \<not> installInProgress lateCheckState
   \<and> installing lateCheckState = 0
   \<and> fst (startInstallProcess_checked lateCheckState 0 False) = None
   \<and> installCompletion (snd (startInstallProcess_checked lateCheckState 0 False)) = Some 1
   \<and> deferreds (snd (startInstallProcess_checked lateCheckState 0 False))
       = [Fulfilled, Pending]"
  by (simp add: lateCheckState_eq installingState_eq startInstallProcess_call_def
      installSettingsOrDefault_def startInstallProcess_checked_def startInstallProcess_enter_def)

text \<open>
  C5, as the claim states it, fails: while an installation is in progress, a call of
  \<open>startInstallProcess\<close> without settings (the defaults are those of the installation
  under way, which does not target an existing Python) that finds Python running is
  rejected with \<open>msgPythonRunningError\<close>; it does not return the completion promise of
  the pending installation.
\<close>

theorem one_installation_counterexample:
  "installInProgress installingState
   \<and> installing installingState = 1
   \<and> installCompletion installingState = Some 0
   \<and> \<not> existingPython (installSettingsOrDefault installingState None)
   \<and> fst (startInstallProcess_enter installingState
             (installSettingsOrDefault installingState None) True)
       = Some (ReturnsRejected msgPythonRunningError)
   \<and> fst (startInstallProcess_enter installingState
             (installSettingsOrDefault installingState None) True)
       \<noteq> Some (ReturnsCompletion 0)"
  by (simp add: installingState_eq startInstallProcess_enter_def installSettingsOrDefault_def)

text \<open>
  C5, amended. In every state \<open>s\<close> that a run from the constructor reaches:
  \<^item> at most one installation is in progress, counting a call that has set the flag and
    still waits to start its background operation;
  \<^item> a call of \<open>startInstallProcess\<close> that, at its checks, has found Python running for an
    install that does not target an existing Python is rejected with
    \<open>msgPythonRunningError\<close> and changes nothing;
  \<^item> a call of \<open>startInstallProcess\<close> made in \<open>s\<close> for an install that does not target an
    existing Python only joins the calls that wait for \<open>isPythonRunning\<close>: it looks at
    the flag later, in the state of that later moment;
  \<^item> \<open>promptForPythonInstall\<close> on a SAW resolves at once and changes nothing;
  \<^item> if an installation is in progress in \<open>s\<close>, its completion promise is pending, and
    each of the following returns that promise and starts no second installation: a
    call that looks at the flag in \<open>s\<close> and was not rejected for a running Python; a
    call made in \<open>s\<close> for an existing Python (it looks at the flag at once); a waiting
    call whose answer arrives in \<open>s\<close> and does not reject it; a call of
    \<open>promptForPythonInstall\<close> made in \<open>s\<close> off a SAW. No stretch but the handlers of
    \<open>installDependencies\<close> settles the promise.
\<close>

theorem one_installation_in_progress:
  "(let s = install_run (newInstallation saw path existing pkgs) events in
      suspended s + installing s \<le> 1
      \<and> (\<forall>settings isPythonRunning.
            \<not> existingPython settings \<and> isPythonRunning \<longrightarrow>
            startInstallProcess_enter s settings isPythonRunning
            = (Some (ReturnsRejected msgPythonRunningError), s))
      \<and> (\<forall>given.
            \<not> existingPython (installSettingsOrDefault s given) \<longrightarrow>
            startInstallProcess_call s given
            = (None, s\<lparr>pythonChecks := pythonChecks s @ [installSettingsOrDefault s given]\<rparr>))
      \<and> (runningOnSAW s \<longrightarrow>
           (\<forall>pythonInstalled requiredPackagesInstalled.
              promptForPythonInstall s pythonInstalled requiredPackagesInstalled
              = (ReturnsResolved, s)))
      \<and> (installInProgress s \<longrightarrow>
           (\<exists>d. installCompletion s = Some d
              \<and> deferreds s ! d = Pending
              \<and> (\<forall>settings isPythonRunning.
                    existingPython settings \<or> \<not> isPythonRunning \<longrightarrow>
                    startInstallProcess_enter s settings isPythonRunning
                    = (Some (ReturnsCompletion d), s))
              \<and> (\<forall>given.
                    existingPython (installSettingsOrDefault s given) \<longrightarrow>
                    startInstallProcess_call s given = (Some (ReturnsCompletion d), s))
              \<and> (\<forall>i isPythonRunning.
                    i < length (pythonChecks s)
                    \<and> (existingPython (pythonChecks s ! i) \<or> \<not> isPythonRunning) \<longrightarrow>
                    startInstallProcess_checked s i isPythonRunning
                    = (Some (ReturnsCompletion d),
                       s\<lparr>pythonChecks := take i (pythonChecks s) @ drop (Suc i) (pythonChecks s)\<rparr>))
              \<and> (\<not> runningOnSAW s \<longrightarrow>
                   (\<forall>pythonInstalled requiredPackagesInstalled.
                      promptForPythonInstall s pythonInstalled requiredPackagesInstalled
                      = (ReturnsCompletion d, s)))
              \<and> (\<forall>e. (\<forall>failure. e \<noteq> InstallDependenciesSettled failure) \<longrightarrow>
                    deferreds (install_step s e) ! d = Pending))))"
proof -
  define s where "s = install_run (newInstallation saw path existing pkgs) events"
  have inv: "install_inv s"
    unfolding s_def by (rule install_inv_run [OF install_inv_new])
  have one: "suspended s + installing s \<le> 1"
    using inv by (simp add: install_inv_def)
  have rej: "startInstallProcess_enter s settings r
             = (Some (ReturnsRejected msgPythonRunningError), s)"
    if "\<not> existingPython settings \<and> r" for settings r
    using that by (simp add: startInstallProcess_enter_def)
  have wait: "startInstallProcess_call s given
              = (None, s\<lparr>pythonChecks := pythonChecks s @ [installSettingsOrDefault s given]\<rparr>)"
    if "\<not> existingPython (installSettingsOrDefault s given)" for given
    using that by (simp add: startInstallProcess_call_def)
  have saw: "promptForPythonInstall s x y = (ReturnsResolved, s)"
    if "runningOnSAW s" for x y
    using that by (simp add: promptForPythonInstall_def)
  have rest: "\<exists>d. installCompletion s = Some d
              \<and> deferreds s ! d = Pending
              \<and> (\<forall>settings isPythonRunning.
                    existingPython settings \<or> \<not> isPythonRunning \<longrightarrow>
                    startInstallProcess_enter s settings isPythonRunning
                    = (Some (ReturnsCompletion d), s))
              \<and> (\<forall>given.
                    existingPython (installSettingsOrDefault s given) \<longrightarrow>
                    startInstallProcess_call s given = (Some (ReturnsCompletion d), s))
              \<and> (\<forall>i isPythonRunning.
                    i < length (pythonChecks s)
                    \<and> (existingPython (pythonChecks s ! i) \<or> \<not> isPythonRunning) \<longrightarrow>
                    startInstallProcess_checked s i isPythonRunning
                    = (Some (ReturnsCompletion d),
                       s\<lparr>pythonChecks := take i (pythonChecks s) @ drop (Suc i) (pythonChecks s)\<rparr>))
              \<and> (\<not> runningOnSAW s \<longrightarrow>
                   (\<forall>pythonInstalled requiredPackagesInstalled.
                      promptForPythonInstall s pythonInstalled requiredPackagesInstalled
                      = (ReturnsCompletion d, s)))
              \<and> (\<forall>e. (\<forall>failure. e \<noteq> InstallDependenciesSettled failure) \<longrightarrow>
                    deferreds (install_step s e) ! d = Pending)"
    if prog: "installInProgress s"
  proof -
    from inv prog obtain d where d: "installCompletion s = Some d"
      "d < length (deferreds s)" "deferreds s ! d = Pending"
      by (auto simp: install_inv_def split: option.splits)
    have a: "startInstallProcess_enter s settings r = (Some (ReturnsCompletion d), s)"
      if "existingPython settings \<or> \<not> r" for settings r
      using in_progress_enter [OF inv prog that] d by simp
    have a2: "startInstallProcess_call s given = (Some (ReturnsCompletion d), s)"
      if "existingPython (installSettingsOrDefault s given)" for given
      using that a [of "installSettingsOrDefault s given" False]
      by (simp add: startInstallProcess_call_def)
    have a3: "startInstallProcess_checked s i r
              = (Some (ReturnsCompletion d),
                 s\<lparr>pythonChecks := take i (pythonChecks s) @ drop (Suc i) (pythonChecks s)\<rparr>)"
      if "i < length (pythonChecks s) \<and> (existingPython (pythonChecks s ! i) \<or> \<not> r)" for i r
    proof -
      let ?s' = "s\<lparr>pythonChecks := take i (pythonChecks s) @ drop (Suc i) (pythonChecks s)\<rparr>"
      have inv': "install_inv ?s'" using inv by (simp add: install_inv_checking)
      have prog': "installInProgress ?s'" using prog by simp
      from that have c: "existingPython (pythonChecks s ! i) \<or> \<not> r" by simp
      from in_progress_enter [OF inv' prog' c] d show ?thesis
        by (simp add: startInstallProcess_checked_def)
    qed
    have b: "promptForPythonInstall s x y = (ReturnsCompletion d, s)"
      if "\<not> runningOnSAW s" for x y
      using in_progress_prompt [OF inv prog that] d by simp
    have c: "deferreds (install_step s e) ! d = Pending"
      if "\<forall>failure. e \<noteq> InstallDependenciesSettled failure" for e
      using deferreds_kept [OF inv d(2) that] d(3) by simp
    show ?thesis using d(1,3) a a2 a3 b c by blast
  qed
  show ?thesis
    unfolding Let_def s_def [symmetric] using one rej wait saw rest by blast
qed

theorem one_installation_in_progress_witness:
  "installInProgress installingState
   \<and> \<not> runningOnSAW installingState
   \<and> installing installingState = 1
   \<and> startInstallProcess_enter installingState bundledSettings False
       = (Some (ReturnsCompletion 0), installingState)
   \<and> startInstallProcess_enter installingState bundledSettings True
       = (Some (ReturnsRejected msgPythonRunningError), installingState)
   \<and> existingPython (installSettingsOrDefault installingState (Some existingSettings))
   \<and> startInstallProcess_call installingState (Some existingSettings)
       = (Some (ReturnsCompletion 0), installingState)
   \<and> \<not> existingPython (installSettingsOrDefault installingState None)
   \<and> fst (startInstallProcess_call installingState None) = None
   \<and> length (pythonChecks (install_run installingState [StartInstallProcess None])) = 1
   \<and> installInProgress (install_run installingState [StartInstallProcess None])
   \<and> fst (startInstallProcess_checked (install_run installingState [StartInstallProcess None])
             0 False)
       = Some (ReturnsCompletion 0)
   \<and> promptForPythonInstall installingState False False
       = (ReturnsCompletion 0, installingState)
   \<and> deferreds (install_step installingState (PromptForPythonInstall False False)) ! 0 = Pending
   \<and> runningOnSAW (install_run (newInstallation True ''ads-python'' True []) [])
   \<and> promptForPythonInstall (install_run (newInstallation True ''ads-python'' True []) [])
        False False
       = (ReturnsResolved, install_run (newInstallation True ''ads-python'' True []) [])"
  using one_installation_in_progress
          [of False "''azuredatastudio-python''" False "[(''jupyter'', ''1.0.0'')]"
              "[StartInstallProcess (Some bundledSettings), IsPythonRunningSettled 0 False,
                ConfigurePackagePathsSettled None]"]
        one_installation_in_progress
          [of False "''azuredatastudio-python''" False "[(''jupyter'', ''1.0.0'')]"
              "[StartInstallProcess (Some bundledSettings), IsPythonRunningSettled 0 False,
                ConfigurePackagePathsSettled None, StartInstallProcess None]"]
        one_installation_in_progress [of True "''ads-python''" True "[]" "[]"]
  by (simp add: installingState_eq startInstallProcess_enter_def promptForPythonInstall_def
      startInstallProcess_call_def startInstallProcess_checked_def installSettingsOrDefault_def
      bundledSettings_def existingSettings_def install_run_def newInstallation_def)

section \<open>Properties of expandAll\<close>

lemma foldl_expand_inv:
  assumes step: "\<And>s x. I s \<Longrightarrow> x \<in> set (expandable s) \<Longrightarrow>
                   I (expand x s) \<and> set (expandable s) \<subseteq> set (expandable (expand x s))"
  shows "I s \<Longrightarrow> set xs \<subseteq> set (expandable s) \<Longrightarrow>
         I (foldl (\<lambda>st x. expand x st) s xs)
         \<and> set (expandable s) \<subseteq> set (expandable (foldl (\<lambda>st x. expand x st) s xs))"
proof (induction xs arbitrary: s)
  case Nil
  then show ?case by simp
next
  case (Cons x xs)
  from Cons.prems have x: "x \<in> set (expandable s)" by simp
  from step [OF Cons.prems(1) x]
  have i: "I (expand x s)" and m: "set (expandable s) \<subseteq> set (expandable (expand x s))"
    by simp_all
  from Cons.prems m have "set xs \<subseteq> set (expandable (expand x s))" by auto
  from Cons.IH [OF i this] m show ?case by auto
qed

lemma expandAll_loop_returns:
  assumes fin: "finite U"
    and sub: "\<And>s. I s \<Longrightarrow> set (expandable s) \<subseteq> U"
    and dist: "\<And>s. I s \<Longrightarrow> distinct (expandable s)"
    and step: "\<And>s x. I s \<Longrightarrow> x \<in> set (expandable s) \<Longrightarrow>
                   I (expand x s) \<and> set (expandable s) \<subseteq> set (expandable (expand x s))"
  shows "I s \<Longrightarrow> distinct expanded \<Longrightarrow>
         items = filter (\<lambda>el. el \<notin> set expanded) (expandable s) \<Longrightarrow>
         \<exists>result s'. expandAll_loop expand expandable items expanded s = Some (result, s')
            \<and> I s' \<and> distinct result \<and> set (expandable s') \<subseteq> set result
            \<and> set result \<subseteq> set expanded \<union> U"
proof (induction "card (U - set expanded)" arbitrary: s expanded items rule: less_induct)
  case less
  show ?case
  proof (cases "items = []")
    case True
    with less.prems(3) have "filter (\<lambda>el. el \<notin> set expanded) (expandable s) = []"
      by simp
    then have "set (expandable s) \<subseteq> set expanded"
      by (auto simp: filter_empty_conv)
    with True less.prems show ?thesis
      by (subst expandAll_loop.simps) auto
  next
    case False
    let ?s' = "foldl (\<lambda>st x. expand x st) s items"
    let ?expanded' = "expanded @ items"
    let ?items' = "filter (\<lambda>el. el \<notin> set ?expanded') (expandable ?s')"
    have items_sub: "set items \<subseteq> set (expandable s)"
      using less.prems(3) by auto
    have items_U: "set items \<subseteq> U - set expanded"
      using less.prems(3) sub [OF less.prems(1)] by auto
    from foldl_expand_inv [of I expandable expand, OF step less.prems(1) items_sub]
    have i': "I ?s'" by simp
    have d': "distinct ?expanded'"
      using less.prems(2,3) dist [OF less.prems(1)] by auto
    from False obtain x where x: "x \<in> set items" by (cases items) auto
    have "U - set ?expanded' \<subset> U - set expanded"
      using x items_U by auto
    then have decr: "card (U - set ?expanded') < card (U - set expanded)"
      using fin by (intro psubset_card_mono) auto
    from less.hyps [OF decr i' d' refl]
    obtain result s'' where r:
      "expandAll_loop expand expandable ?items' ?expanded' ?s' = Some (result, s'')"
      "I s''" "distinct result" "set (expandable s'') \<subseteq> set result"
      "set result \<subseteq> set ?expanded' \<union> U"
      by blast
    have "expandAll_loop expand expandable items expanded s = Some (result, s'')"
      using False r(1) by (subst expandAll_loop.simps) simp
    moreover have "set result \<subseteq> set expanded \<union> U"
      using r(5) items_U by auto
    ultimately show ?thesis using r(2,3,4) by blast
  qed
qed

lemma subtreeNodes_set:
  "n \<in> set (subtreeNodes (Element k cs) p) \<longleftrightarrow>
     n = (p, Element k cs) \<or> (\<exists>i < length cs. n \<in> set (subtreeNodes (cs ! i) (p @ [i])))"
  by auto

lemma forestNodes_set:
  "n \<in> set (forestNodes p cs) \<longleftrightarrow> (\<exists>i < length cs. n \<in> set (subtreeNodes (cs ! i) (p @ [i])))"
  by (auto simp: forestNodes_def)

lemma childNodes_set:
  "n \<in> set (childNodes p cs) \<longleftrightarrow> (\<exists>i < length cs. n = (p @ [i], cs ! i))"
  by (auto simp: childNodes_def)

lemma subtreeNodes_root: "(p, c) \<in> set (subtreeNodes c p)"
  by (cases c) simp

lemma subtreeNodes_length: "n \<in> set (subtreeNodes c p) \<Longrightarrow> length p \<le> length (fst n)"
proof (induction c arbitrary: p)
  case (Element k cs)
  from Element.prems show ?case
    unfolding subtreeNodes_set
  proof (elim disjE exE conjE)
    assume "n = (p, Element k cs)" then show ?thesis by simp
  next
    fix i assume i: "i < length cs" and n: "n \<in> set (subtreeNodes (cs ! i) (p @ [i]))"
    from i have "cs ! i \<in> set cs" by simp
    from Element.IH [OF this n] show ?thesis by simp
  qed
qed

lemma subtreeNodes_closed:
  "(q, e) \<in> set (subtreeNodes c p) \<Longrightarrow>
   set (childNodes q (childrenOf e)) \<subseteq> set (subtreeNodes c p)"
proof (induction c arbitrary: p)
  case (Element k cs)
  from Element.prems show ?case
    unfolding subtreeNodes_set [of "(q, e)"]
  proof (elim disjE exE conjE)
    assume "(q, e) = (p, Element k cs)"
    then have qe: "q = p" "childrenOf e = cs" by simp_all
    show ?thesis
    proof
      fix n assume "n \<in> set (childNodes q (childrenOf e))"
      then obtain i where i: "i < length cs" "n = (p @ [i], cs ! i)"
        unfolding qe childNodes_set by blast
      have "n \<in> set (subtreeNodes (cs ! i) (p @ [i]))"
        unfolding i(2) by (rule subtreeNodes_root)
      with i(1) show "n \<in> set (subtreeNodes (Element k cs) p)"
        unfolding subtreeNodes_set by blast
    qed
  next
    fix i assume i: "i < length cs" and n: "(q, e) \<in> set (subtreeNodes (cs ! i) (p @ [i]))"
    from i have "cs ! i \<in> set cs" by simp
    from Element.IH [OF this n] i show ?thesis
      using subtreeNodes_set [of _ k cs p] by blast
  qed
qed

lemma forestNodes_closed:
  "(q, e) \<in> set (forestNodes p cs) \<Longrightarrow>
   set (childNodes q (childrenOf e)) \<subseteq> set (forestNodes p cs)"
  using subtreeNodes_closed by (fastforce simp: forestNodes_set)

lemma forestNodes_length: "n \<in> set (forestNodes p cs) \<Longrightarrow> length p < length (fst n)"
  using subtreeNodes_length by (fastforce simp: forestNodes_set)

lemma childNodes_forest: "set (childNodes p cs) \<subseteq> set (forestNodes p cs)"
proof
  fix n assume "n \<in> set (childNodes p cs)"
  then obtain i where i: "i < length cs" "n = (p @ [i], cs ! i)"
    unfolding childNodes_set by blast
  have "n \<in> set (subtreeNodes (cs ! i) (p @ [i]))"
    unfolding i(2) by (rule subtreeNodes_root)
  with i(1) show "n \<in> set (forestNodes p cs)"
    unfolding forestNodes_set by blast
qed

lemma map_fst_childNodes: "map fst (childNodes p cs) = map (\<lambda>i. p @ [i]) [0..<length cs]"
  by (simp add: childNodes_def comp_def)

lemma distinct_childNodes: "distinct (map fst (childNodes p cs))"
  by (simp add: map_fst_childNodes distinct_map inj_on_def)

lemma view_of_iff:
  "view_of roots v \<longleftrightarrow>
     distinct (map fst (treeNodes v))
     \<and> set (treeNodes v) \<subseteq> set (forestNodes [] roots)
     \<and> (\<forall>n \<in> set (treeNodes v). length (fst n) \<le> 1 \<or> butlast (fst n) \<in> set (loaded v))"
  by (auto simp: view_of_def list_all_iff)

lemma view_of_initial: "view_of roots (initialView roots)"
  unfolding view_of_iff initialView_def
  using childNodes_forest [of "[]" roots] distinct_childNodes [of "[]" roots]
  by (auto simp: childNodes_set)

lemma treeNodes_tree_expand: "set (treeNodes v) \<subseteq> set (treeNodes (tree_expand n v))"
  by (auto simp: tree_expand_def getChildren_def)

lemma view_of_tree_expand:
  assumes v: "view_of roots v" and n: "n \<in> set (treeNodes v)"
  shows "view_of roots (tree_expand n v)"
proof (cases "fst n \<in> set (loaded v) \<or> kindOf (snd n) = ConnectionProfile")
  case True
  with v show ?thesis
    by (auto simp: view_of_iff tree_expand_def getChildren_def)
next
  case False
  obtain p e where pe: "n = (p, e)" by (cases n)
  from False pe have fresh: "p \<notin> set (loaded v)" and k: "kindOf e \<noteq> ConnectionProfile"
    by simp_all
  from v have d: "distinct (map fst (treeNodes v))"
    and f: "set (treeNodes v) \<subseteq> set (forestNodes [] roots)"
    and l: "\<forall>m \<in> set (treeNodes v). length (fst m) \<le> 1 \<or> butlast (fst m) \<in> set (loaded v)"
    by (simp_all add: view_of_iff)
  from n f pe have inforest: "(p, e) \<in> set (forestNodes [] roots)" by auto
  then have pne: "p \<noteq> []" using forestNodes_length [of "(p, e)" "[]" roots] by auto
  have new: "treeNodes (tree_expand n v) = treeNodes v @ childNodes p (childrenOf e)"
    "loaded (tree_expand n v) = p # loaded v"
    using fresh k by (simp_all add: tree_expand_def getChildren_def pe)
  have disj: "fst ` set (treeNodes v) \<inter> fst ` set (childNodes p (childrenOf e)) = {}"
  proof (rule ccontr)
    assume "\<not> ?thesis"
    then obtain m c where mc: "m \<in> set (treeNodes v)" "c \<in> set (childNodes p (childrenOf e))"
      "fst m = fst c" by auto
    from mc(2) obtain i where "c = (p @ [i], childrenOf e ! i)"
      unfolding childNodes_set by blast
    with mc have m: "m \<in> set (treeNodes v)" "fst m = p @ [i]" by simp_all
    from l m(1) have "length (fst m) \<le> 1 \<or> butlast (fst m) \<in> set (loaded v)" by blast
    with m(2) pne fresh show False by (cases p) auto
  qed
  have "distinct (map fst (treeNodes (tree_expand n v)))"
    using d disj distinct_childNodes [of p "childrenOf e"] by (simp add: new)
  moreover have "set (treeNodes (tree_expand n v)) \<subseteq> set (forestNodes [] roots)"
    using f forestNodes_closed [OF inforest] by (auto simp: new)
  moreover have "\<forall>m \<in> set (treeNodes (tree_expand n v)).
       length (fst m) \<le> 1 \<or> butlast (fst m) \<in> set (loaded (tree_expand n v))"
    using l by (auto simp: new childNodes_set)
  ultimately show ?thesis by (simp add: view_of_iff)
qed

lemma expandable_step:
  assumes "view_of roots v" and "x \<in> set (expandableTreeNodes v)"
  shows "view_of roots (tree_expand x v)
         \<and> set (expandableTreeNodes v) \<subseteq> set (expandableTreeNodes (tree_expand x v))"
  using assms view_of_tree_expand [of roots v x] treeNodes_tree_expand [of v x]
  by (auto simp: expandableTreeNodes_def)

text \<open>
  C10. On every finite tree, from every view of it, \<open>expandAll\<close> returns. The calls of
  \<open>expand\<close> it has made are all different (each round takes only nodes that no
  earlier round has expanded), all on expandable nodes of the tree, and when the loop
  ends every expandable node of the view has been expanded.
\<close>

theorem expandAll_terminates:
  "view_of roots v \<longrightarrow>
     (\<exists>expandedTreeItems v'.
        expandAll tree_expand expandableTreeNodes v = Some (expandedTreeItems, v')
        \<and> distinct expandedTreeItems
        \<and> list_all isExpandable expandedTreeItems
        \<and> set (expandableTreeNodes v') \<subseteq> set expandedTreeItems
        \<and> set expandedTreeItems \<subseteq> set (forestNodes [] roots))"
proof
  assume v: "view_of roots v"
  let ?U = "set (filter isExpandable (forestNodes [] roots))"
  have sub: "set (expandableTreeNodes s) \<subseteq> ?U" if "view_of roots s" for s
    using that by (auto simp: view_of_iff expandableTreeNodes_def)
  have dist: "distinct (expandableTreeNodes s)" if "view_of roots s" for s
    using that by (auto simp: view_of_iff expandableTreeNodes_def distinct_map)
  have "\<exists>result s'.
          expandAll_loop tree_expand expandableTreeNodes (expandableTreeNodes v) [] v
            = Some (result, s')
          \<and> view_of roots s' \<and> distinct result
          \<and> set (expandableTreeNodes s') \<subseteq> set result \<and> set result \<subseteq> set [] \<union> ?U"
  proof (rule expandAll_loop_returns [where I = "view_of roots" and U = ?U])
    show "finite ?U" by simp
    show "\<And>s. view_of roots s \<Longrightarrow> set (expandableTreeNodes s) \<subseteq> ?U" by (rule sub)
    show "\<And>s. view_of roots s \<Longrightarrow> distinct (expandableTreeNodes s)" by (rule dist)
    show "\<And>s x. view_of roots s \<Longrightarrow> x \<in> set (expandableTreeNodes s) \<Longrightarrow>
            view_of roots (tree_expand x s)
            \<and> set (expandableTreeNodes s) \<subseteq> set (expandableTreeNodes (tree_expand x s))"
      by (rule expandable_step)
    show "view_of roots v" by (rule v)
    show "distinct ([] :: node list)" by simp
    show "expandableTreeNodes v = filter (\<lambda>el. el \<notin> set []) (expandableTreeNodes v)" by simp
  qed
  then show "\<exists>expandedTreeItems v'.
        expandAll tree_expand expandableTreeNodes v = Some (expandedTreeItems, v')
        \<and> distinct expandedTreeItems
        \<and> list_all isExpandable expandedTreeItems
        \<and> set (expandableTreeNodes v') \<subseteq> set expandedTreeItems
        \<and> set expandedTreeItems \<subseteq> set (forestNodes [] roots)"
    unfolding expandAll_def list_all_iff by fastforce
qed

theorem expandAll_terminates_witness:
  "view_of sampleRoots (initialView sampleRoots)
   \<and> map_option (\<lambda>r. map fst (fst r))
        (expandAll tree_expand expandableTreeNodes (initialView sampleRoots))
       = Some [[0], [1], [0, 0], [1, 0]]"
proof -
  have v: "view_of sampleRoots (initialView sampleRoots)"
    by (simp add: view_of_def initialView_def sampleRoots_def childNodes_def forestNodes_def
        upt_rec)
  have r: "map_option (\<lambda>r. map fst (fst r))
        (expandAll tree_expand expandableTreeNodes (initialView sampleRoots))
       = Some [[0], [1], [0, 0], [1, 0]]"
    by (simp add: expandAll_def expandAll_loop.simps initialView_def sampleRoots_def
        expandableTreeNodes_def tree_expand_def getChildren_def childNodes_def upt_rec)
  from expandAll_terminates [of sampleRoots "initialView sampleRoots"] v r
  show ?thesis by simp
qed

section \<open>Properties of the comparison validations\<close>

text \<open>The rows on integers of the two test suites, with the decimal conversion.\<close>

lemma LessThanOrEqualsValidation_test_rows:
  "lessThanOrEquals decimalToNumber (StringValue ''342'') (StringValue ''42'')
   \<and> \<not> lessThanOrEquals decimalToNumber (NumberValue (Finite 342)) (StringValue ''42'')
   \<and> \<not> lessThanOrEquals decimalToNumber (StringValue ''342'') (NumberValue (Finite 42))
   \<and> lessThanOrEquals decimalToNumber (NumberValue (Finite 42)) (StringValue ''342'')
   \<and> lessThanOrEquals decimalToNumber (StringValue ''42'') (NumberValue (Finite 342))
   \<and> lessThanOrEquals decimalToNumber (NumberValue (Finite 42)) (StringValue ''42'')
   \<and> \<not> lessThanOrEquals decimalToNumber (NumberValue (Finite 342)) (NumberValue (Finite 42))
   \<and> \<not> lessThanOrEquals decimalToNumber UndefinedValue (StringValue ''42'')
   \<and> \<not> lessThanOrEquals decimalToNumber UndefinedValue (NumberValue (Finite 42))
   \<and> \<not> lessThanOrEquals decimalToNumber (StringValue ''42'') UndefinedValue
   \<and> \<not> lessThanOrEquals decimalToNumber (NumberValue (Finite 42)) UndefinedValue
   \<and> \<not> lessThanOrEquals decimalToNumber UndefinedValue UndefinedValue"
  by (simp add: decimalToNumber_def)

lemma GreaterThanOrEqualsValidation_test_rows:
  "\<not> greaterThanOrEquals decimalToNumber (StringValue ''342'') (StringValue ''42'')
   \<and> greaterThanOrEquals decimalToNumber (NumberValue (Finite 342)) (StringValue ''42'')
   \<and> greaterThanOrEquals decimalToNumber (StringValue ''342'') (NumberValue (Finite 42))
   \<and> greaterThanOrEquals decimalToNumber (NumberValue (Finite 342)) (NumberValue (Finite 42))
   \<and> \<not> greaterThanOrEquals decimalToNumber UndefinedValue (StringValue ''42'')
   \<and> \<not> greaterThanOrEquals decimalToNumber UndefinedValue (NumberValue (Finite 42))
   \<and> \<not> greaterThanOrEquals decimalToNumber (StringValue ''42'') UndefinedValue
   \<and> \<not> greaterThanOrEquals decimalToNumber (NumberValue (Finite 42)) UndefinedValue
   \<and> \<not> greaterThanOrEquals decimalToNumber UndefinedValue UndefinedValue"
  by (simp add: decimalToNumber_def)

text \<open>
  C1. For \<open>LessThanOrEqualsValidation\<close> and \<open>GreaterThanOrEqualsValidation\<close>, on every
  pair of operands: two strings are compared as strings (so \<open>'342' <= '42'\<close> is valid)
  and two numbers as numbers; a string against a number is compared numerically (so
  \<open>342 <= '42'\<close> is not valid); and with an \<open>undefined\<close> operand the result is invalid.
\<close>

theorem comparison_validations:
  "valid (LessThanOrEqualsValidation_validate toNumber d (StringValue a) (StringValue b))
     = string_le a b
   \<and> valid (GreaterThanOrEqualsValidation_validate toNumber d (StringValue a) (StringValue b))
     = string_le b a
   \<and> valid (LessThanOrEqualsValidation_validate toNumber d (NumberValue x) (NumberValue y))
     = number_le x y
   \<and> valid (GreaterThanOrEqualsValidation_validate toNumber d (NumberValue x) (NumberValue y))
     = number_le y x
   \<and> valid (LessThanOrEqualsValidation_validate toNumber d (StringValue a) (NumberValue y))
     = number_le (toNumber a) y
   \<and> valid (LessThanOrEqualsValidation_validate toNumber d (NumberValue x) (StringValue b))
     = number_le x (toNumber b)
   \<and> valid (GreaterThanOrEqualsValidation_validate toNumber d (StringValue a) (NumberValue y))
     = number_le y (toNumber a)
   \<and> valid (GreaterThanOrEqualsValidation_validate toNumber d (NumberValue x) (StringValue b))
     = number_le (toNumber b) x
   \<and> \<not> valid (LessThanOrEqualsValidation_validate toNumber d UndefinedValue target)
   \<and> \<not> valid (LessThanOrEqualsValidation_validate toNumber d v UndefinedValue)
   \<and> \<not> valid (GreaterThanOrEqualsValidation_validate toNumber d UndefinedValue target)
   \<and> \<not> valid (GreaterThanOrEqualsValidation_validate toNumber d v UndefinedValue)
   \<and> valid (LessThanOrEqualsValidation_validate toNumber d
               (StringValue ''342'') (StringValue ''42''))
   \<and> \<not> valid (LessThanOrEqualsValidation_validate decimalToNumber d
               (NumberValue (Finite 342)) (StringValue ''42''))"
proof -
  have u1: "\<not> lessThanOrEquals toNumber v UndefinedValue" by (cases v) simp_all
  have u2: "\<not> greaterThanOrEquals toNumber v UndefinedValue" by (cases v) simp_all
  have d42: "decimalToNumber ''42'' = Finite 42"
    by (simp add: decimalToNumber_def)
  show ?thesis
    by (simp add: LessThanOrEqualsValidation_validate_def
        GreaterThanOrEqualsValidation_validate_def u1 u2 d42)
qed

section \<open>Properties of Project\<close>

text \<open>
  C2. \<open>addSystemDatabaseReference\<close> and \<open>addDatabaseReference\<close> fail with
  \<open>databaseReferenceAlreadyExists\<close> when a reference equivalent to the requested one is
  present, and then leave the project as it was.
\<close>

theorem addDatabaseReference_duplicate:
  "(list_ex (equivalent (SystemDatabaseReferenceProjectEntry (sys_databaseName sysSettings)
                (systemDb sysSettings) (sys_suppressMissingDependenciesErrors sysSettings)))
      (databaseReferences p)
    \<longrightarrow> addSystemDatabaseReference equivalent sysSettings p
        = (Inl databaseReferenceAlreadyExists, p))
   \<and> (list_ex (equivalent (DacpacReferenceProjectEntry (dacpacFileLocation dacSettings)
                (dac_suppressMissingDependenciesErrors dacSettings)))
      (databaseReferences p)
    \<longrightarrow> addDatabaseReference equivalent dacSettings p
        = (Inl databaseReferenceAlreadyExists, p))"
  by (simp add: addSystemDatabaseReference_def addDatabaseReference_def
      addDatabaseReferenceEntry_def)

lemma projectWithReferences_refs:
  "databaseReferences projectWithReferences =
     [SystemDatabaseReferenceProjectEntry ''master'' master False,
      DacpacReferenceProjectEntry ''test.dacpac'' False]"
  by (simp add: projectWithReferences_def addSystemDatabaseReference_def
      addDatabaseReference_def addDatabaseReferenceEntry_def sameEntry_def masterSettings_def
      testDacpacSettings_def newProject_def)

theorem addDatabaseReference_duplicate_witness:
  "length (databaseReferences projectWithReferences) = 2
   \<and> addSystemDatabaseReference sameEntry masterSettings projectWithReferences
       = (Inl databaseReferenceAlreadyExists, projectWithReferences)
   \<and> addDatabaseReference sameEntry testDacpacSettings projectWithReferences
       = (Inl databaseReferenceAlreadyExists, projectWithReferences)"
  using addDatabaseReference_duplicate
          [of sameEntry masterSettings projectWithReferences testDacpacSettings]
  by (simp add: projectWithReferences_refs sameEntry_def masterSettings_def
      testDacpacSettings_def)

text \<open>
  C3. For a project with two imported targets whose project file exists,
  \<open>updateProjectForRoundTrip\<close> succeeds; the file at the project path with \<open>_backup\<close>
  appended then holds what the project file held before the call, the copy is made
  before the project file is written, and the project has three imported targets, one
  more than before.
\<close>

theorem updateProjectForRoundTrip_backup:
  "files d (projectFilePath p) = Some content \<and> length (importedTargets p) = 2 \<longrightarrow>
     (case updateProjectForRoundTrip serialize target p d of
        (outcome, p', d') \<Rightarrow>
          outcome = Inr ()
          \<and> files d' (projectFilePath p @ ''_backup'') = Some content
          \<and> ops d' = ops d @ [CopyFile (projectFilePath p) (projectFilePath p @ ''_backup''),
                              WriteFile (projectFilePath p)]
          \<and> length (importedTargets p') = 3
          \<and> length (importedTargets p') = length (importedTargets p) + 1)"
  by (simp add: updateProjectForRoundTrip_def Let_def)

theorem updateProjectForRoundTrip_backup_witness:
  "files ssdtDisk (projectFilePath ssdtProject) = Some ''<Project/>''
   \<and> length (importedTargets ssdtProject) = 2
   \<and> files (snd (snd (updateProjectForRoundTrip (\<lambda>q. ''<Project>...</Project>'')
                         ''NetCore.targets'' ssdtProject ssdtDisk)))
        ''TestProjectName.sqlproj_backup'' = Some ''<Project/>''
   \<and> length (importedTargets (fst (snd (updateProjectForRoundTrip
                (\<lambda>q. ''<Project>...</Project>'') ''NetCore.targets'' ssdtProject ssdtDisk)))) = 3"
  using updateProjectForRoundTrip_backup
          [of ssdtDisk ssdtProject "''<Project/>''" "\<lambda>q. ''<Project>...</Project>''"
              "''NetCore.targets''"]
  by (simp add: ssdtProject_def ssdtDisk_def split: prod.splits)

lemma sqlCmdVariables_addSqlCmdVariables:
  "sqlCmdVariables (addSqlCmdVariables calls p) = sqlCmdVariables p ++ map_of (rev calls)"
proof (induction calls arbitrary: p)
  case Nil
  then show ?case by (simp add: addSqlCmdVariables_def)
next
  case (Cons c calls)
  obtain n v where c: "c = (n, v)" by (cases c)
  have "addSqlCmdVariables (c # calls) p = addSqlCmdVariables calls (addSqlCmdVariable n v p)"
    by (simp add: addSqlCmdVariables_def c)
  moreover have "sqlCmdVariables (addSqlCmdVariable n v p) = (sqlCmdVariables p)(n \<mapsto> v)"
    by (simp add: addSqlCmdVariable_def)
  ultimately have "sqlCmdVariables (addSqlCmdVariables (c # calls) p)
             = (sqlCmdVariables p)(n \<mapsto> v) ++ map_of (rev calls)"
    using Cons.IH [of "addSqlCmdVariable n v p"] by (simp only:)
  also have "\<dots> = sqlCmdVariables p ++ map_of (rev (c # calls))"
    by (simp add: c map_add_upd_left fun_eq_iff map_add_def split: option.splits)
  finally show ?case .
qed

text \<open>
  C4, as the claim states it, fails: the size of the map is not the number of distinct
  names added when the project had variables before. The project of the test has two
  variables; after adding two distinct names, one of them new, the map has three.
\<close>

theorem addSqlCmdVariable_size_counterexample:
  "card (dom (sqlCmdVariables openedProject)) = 2
   \<and> length (remdups (map fst [(''TestDatabaseName'', ''TestDb''),
                                (''ProdDatabaseName'', ''NewProdName'')])) = 2
   \<and> card (dom (sqlCmdVariables (addSqlCmdVariables
              [(''TestDatabaseName'', ''TestDb''), (''ProdDatabaseName'', ''NewProdName'')]
              openedProject))) = 3"
proof -
  have ne: "''TestDatabaseName'' \<noteq> ''ProdDatabaseName''"
    "''TestDatabaseName'' \<noteq> ''BackupDatabaseName''"
    "''ProdDatabaseName'' \<noteq> ''BackupDatabaseName''"
    by simp_all
  have "dom (sqlCmdVariables (addSqlCmdVariables
              [(''TestDatabaseName'', ''TestDb''), (''ProdDatabaseName'', ''NewProdName'')]
              openedProject))
        = {''TestDatabaseName'', ''ProdDatabaseName'', ''BackupDatabaseName''}"
    by (auto simp: sqlCmdVariables_addSqlCmdVariables openedProject_def)
  moreover have "dom (sqlCmdVariables openedProject)
        = {''ProdDatabaseName'', ''BackupDatabaseName''}"
    by (auto simp: openedProject_def)
  ultimately show ?thesis using ne by simp
qed

text \<open>
  C4, amended. After any sequence of calls of \<open>addSqlCmdVariable\<close>, every name that was
  added maps to the value of the last call for it and every other name keeps its value.
  The names of the map are the names the project had and the names added, so the size
  of the map is the number of distinct names among those the project had and those
  added; from a project without variables it is the number of distinct names added. A
  call for an existing name replaces the value and adds no entry.
\<close>

theorem addSqlCmdVariable_last_write_wins:
  "(\<forall>n. sqlCmdVariables (addSqlCmdVariables calls p) n
         = (case map_of (rev calls) n of
              Some v \<Rightarrow> Some v
            | None \<Rightarrow> sqlCmdVariables p n))
   \<and> dom (sqlCmdVariables (addSqlCmdVariables calls p))
       = dom (sqlCmdVariables p) \<union> fst ` set calls
   \<and> card (dom (sqlCmdVariables (addSqlCmdVariables calls p)))
       = card (dom (sqlCmdVariables p) \<union> fst ` set calls)
   \<and> (sqlCmdVariables p = Map.empty \<longrightarrow>
        card (dom (sqlCmdVariables (addSqlCmdVariables calls p)))
          = length (remdups (map fst calls)))
   \<and> (n \<in> dom (sqlCmdVariables p) \<longrightarrow>
        sqlCmdVariables (addSqlCmdVariable n v p) n = Some v
        \<and> dom (sqlCmdVariables (addSqlCmdVariable n v p)) = dom (sqlCmdVariables p))"
proof (intro conjI allI impI)
  fix n
  show "sqlCmdVariables (addSqlCmdVariables calls p) n
         = (case map_of (rev calls) n of Some v \<Rightarrow> Some v | None \<Rightarrow> sqlCmdVariables p n)"
    by (simp add: sqlCmdVariables_addSqlCmdVariables map_add_def)
next
  show d: "dom (sqlCmdVariables (addSqlCmdVariables calls p))
       = dom (sqlCmdVariables p) \<union> fst ` set calls"
    by (simp add: sqlCmdVariables_addSqlCmdVariables dom_map_of_conv_image_fst Un_commute)
  show "card (dom (sqlCmdVariables (addSqlCmdVariables calls p)))
       = card (dom (sqlCmdVariables p) \<union> fst ` set calls)"
    by (simp only: d)
  assume "sqlCmdVariables p = Map.empty"
  then have "dom (sqlCmdVariables (addSqlCmdVariables calls p)) = set (map fst calls)"
    using d by simp
  then show "card (dom (sqlCmdVariables (addSqlCmdVariables calls p)))
          = length (remdups (map fst calls))"
    by (simp only: card_set)
next
  assume "n \<in> dom (sqlCmdVariables p)"
  then show "sqlCmdVariables (addSqlCmdVariable n v p) n = Some v"
    by (simp add: addSqlCmdVariable_def)
next
  assume "n \<in> dom (sqlCmdVariables p)"
  then show "dom (sqlCmdVariables (addSqlCmdVariable n v p)) = dom (sqlCmdVariables p)"
    by (auto simp: addSqlCmdVariable_def)
qed

theorem addSqlCmdVariable_last_write_wins_witness:
  "sqlCmdVariables newProject = Map.empty
   \<and> ''ProdDatabaseName'' \<in> dom (sqlCmdVariables openedProject)
   \<and> card (dom (sqlCmdVariables (addSqlCmdVariables
        [(''TestDatabaseName'', ''TestDb''), (''ProdDatabaseName'', ''A''),
         (''ProdDatabaseName'', ''NewProdName'')] newProject))) = 2
   \<and> sqlCmdVariables (addSqlCmdVariables
        [(''TestDatabaseName'', ''TestDb''), (''ProdDatabaseName'', ''A''),
         (''ProdDatabaseName'', ''NewProdName'')] newProject) ''ProdDatabaseName''
       = Some ''NewProdName''
   \<and> dom (sqlCmdVariables (addSqlCmdVariable ''ProdDatabaseName'' ''NewProdName'' openedProject))
       = {''ProdDatabaseName'', ''BackupDatabaseName''}
   \<and> sqlCmdVariables (addSqlCmdVariable ''ProdDatabaseName'' ''NewProdName'' openedProject)
        ''ProdDatabaseName'' = Some ''NewProdName''"
  using addSqlCmdVariable_last_write_wins
          [of "[(''TestDatabaseName'', ''TestDb''), (''ProdDatabaseName'', ''A''),
                (''ProdDatabaseName'', ''NewProdName'')]" newProject
              "''ProdDatabaseName''" "''NewProdName''"]
        addSqlCmdVariable_last_write_wins
          [of "[]" openedProject "''ProdDatabaseName''" "''NewProdName''"]
  by (auto simp: newProject_def openedProject_def)

end
